theory Spec2Isabelle
  imports Main
begin

section \<open>Data model\<close>

text \<open>
  The entities of package \<^verbatim>\<open>models\<close>. Identifiers (\<^verbatim>\<open>uint\<close>) are natural numbers and sizes
  (\<^verbatim>\<open>int64\<close>) are integers: no arithmetic is done on either beyond comparison.
\<close>

type_synonym bytes = "nat list"

text \<open>The errors the code tests for or passes on: those of the database, of the file
  system and of the network, \<^verbatim>\<open>errors.New("File too large")\<close>, and the run-time panic of a
  nil dereference.\<close>

datatype error =
    RecordNotFound
  | DatabaseFailure
  | UniqueViolation
  | IOFailure
  | NetworkFailure
  | FileTooLarge
  | NilDereference

text \<open>Modelled from the spec: the declaration of \<^verbatim>\<open>Namespace\<close> is not among the sources.
  Namespace: {id, name, ownerUserId}.\<close>

record Namespace =
  ns_ID :: nat
  ns_Name :: string
  ns_UserID :: nat

text \<open>Modelled from the spec: the declaration of \<^verbatim>\<open>Tag\<close> is not among the sources.
  Tag: {id, name, namespaceId, ownerUserId}.\<close>

record Tag =
  tag_ID :: nat
  tag_Name :: string
  tag_NamespaceID :: nat
  tag_UserID :: nat

text \<open>Modelled from the spec: the declaration of \<^verbatim>\<open>Group\<close> is not among the sources.
  Group: {id, name, namespaceId, ownerUserId}.\<close>

record Group =
  group_ID :: nat
  group_Name :: string
  group_NamespaceID :: nat
  group_UserID :: nat

text \<open>Modelled from the spec: the declaration of \<^verbatim>\<open>User\<close> and its role are not among the
  sources. A user has an id and, per role, capabilities (can upload files, can upload via
  URL, can access foreign namespaces) and a ceiling for the size of a remote content. A
  field holds the answer of the method of that name (\<^verbatim>\<open>CanUploadFiles()\<close>,
  \<^verbatim>\<open>AllowedToUploadURLs()\<close>, \<^verbatim>\<open>CanWriteForeignNamespace()\<close>, \<^verbatim>\<open>HasUploadLimit()\<close>) or the
  role's \<^verbatim>\<open>MaxURLcontentSize\<close>.\<close>

record User =
  usr_ID :: nat
  CanUploadFiles :: bool
  AllowedToUploadURLs :: bool
  CanWriteForeignNamespace :: bool
  HasUploadLimit :: bool
  MaxURLcontentSize :: int

text \<open>\<^verbatim>\<open>File\<close>, as declared. \<^verbatim>\<open>gorm.Model\<close> contributes the primary key \<open>ID\<close> and the
  soft-delete column \<open>DeletedAt\<close>, a timestamp that is null or set and is kept as a flag.
  \<^verbatim>\<open>sql.NullString\<close> is a \<open>string option\<close>: \<^verbatim>\<open>Valid = false\<close> is \<open>None\<close>. A pointer that may be
  nil is an option.\<close>

record File =
  ID :: nat
  DeletedAt :: bool
  Name :: string
  LocalName :: string
  User :: "User option"
  UserID :: nat
  FileSize :: int
  FileType :: string
  IsPublic :: bool
  PublicFilename :: "string option"
  Groups :: "Group list"
  Tags :: "Tag list"
  Namespace :: "Namespace option"
  NamespaceID :: nat

text \<open>The zero value \<^verbatim>\<open>File{}\<close>.\<close>

definition empty_File :: File where
  "empty_File = \<lparr>ID = 0, DeletedAt = False, Name = [], LocalName = [], User = None, UserID = 0,
     FileSize = 0, FileType = [], IsPublic = False, PublicFilename = None, Groups = [],
     Tags = [], Namespace = None, NamespaceID = 0\<rparr>"

section \<open>The store the handlers act on\<close>

text \<open>
  \<open>Store\<close> is everything outside the process that the code reads and writes: the tables
  behind \<^verbatim>\<open>*gorm.DB\<close> (a stored \<open>File\<close> row carries its join rows in \<open>Tags\<close> and \<open>Groups\<close>),
  the storage directory (\<open>disk\<close>, keyed by local name), and the two things the environment
  decides: \<open>faults\<close>, the outcome of the coming fallible calls to the database and the
  file system in order (\<open>True\<close>: that call fails; an exhausted list: no more failures), and
  \<open>entropy\<close>, the characters \<^verbatim>\<open>gaw.RandString\<close> will draw, read from position \<open>epos\<close>.
  \<open>DefaultNamespace\<close> is the package variable of that name.
\<close>

record Store =
  files :: "File list"
  tags :: "Tag list"
  groups :: "Group list"
  disk :: "string \<rightharpoonup> bytes"
  faults :: "bool list"
  entropy :: "nat \<Rightarrow> char"
  epos :: nat
  DefaultNamespace :: Namespace

text \<open>\<open>tick\<close> is the start of a fallible call: whether it fails, and the store with that
  outcome consumed.\<close>

definition tick :: "Store \<Rightarrow> bool \<times> Store" where
  "tick db = (case faults db of [] \<Rightarrow> (False, db) | b # bs \<Rightarrow> (b, db\<lparr>faults := bs\<rparr>))"

text \<open>\<^verbatim>\<open>gaw.RandString(n)\<close>: a string of exactly \<open>n\<close> random characters.\<close>

definition RandString :: "Store \<Rightarrow> nat \<Rightarrow> string \<times> Store" where
  "RandString db n = (map (entropy db) [epos db ..< epos db + n], db\<lparr>epos := epos db + n\<rparr>)"

text \<open>\<^verbatim>\<open>gaw.IsInStringArray(s, arr)\<close>.\<close>

definition IsInStringArray :: "string \<Rightarrow> string list \<Rightarrow> bool" where
  "IsInStringArray s arr = (s \<in> set arr)"

subsection \<open>Queries and writes on the file table\<close>

text \<open>
  Every query built from \<^verbatim>\<open>db.Model(&File{})\<close> skips soft-deleted rows. \<^verbatim>\<open>First\<close> orders by
  primary key and takes one row. A row read without \<^verbatim>\<open>Preload\<close> has no associations.
\<close>

definition live :: "File \<Rightarrow> bool" where
  "live r = (\<not> DeletedAt r)"

definition least_ID :: "File \<Rightarrow> File list \<Rightarrow> File" where
  "least_ID r rs = fold (\<lambda>a b. if ID a < ID b then a else b) rs r"

definition First :: "(File \<Rightarrow> bool) \<Rightarrow> File list \<Rightarrow> File option" where
  "First cond rows =
     (case filter (\<lambda>r. live r \<and> cond r) rows of [] \<Rightarrow> None | r # rs \<Rightarrow> Some (least_ID r rs))"

definition plain :: "File \<Rightarrow> File" where
  "plain r = r\<lparr>Tags := [], Groups := [], Namespace := None, User := None\<rparr>"

definition fresh_ID :: "nat list \<Rightarrow> nat" where
  "fresh_ID ids = Suc (fold max ids 0)"

text \<open>
  Writing a row: the foreign keys follow the belongs-to associations that are set
  (\<^verbatim>\<open>Namespace\<close>, \<^verbatim>\<open>User\<close>), and a join row is added for every tag and group of the struct
  that the stored row does not reference yet; join rows are never removed by a save.
\<close>

definition sync_keys :: "File \<Rightarrow> File" where
  "sync_keys file = file
     \<lparr>NamespaceID := (case Namespace file of None \<Rightarrow> NamespaceID file | Some ns \<Rightarrow> ns_ID ns),
      UserID := (case User file of None \<Rightarrow> UserID file | Some u \<Rightarrow> usr_ID u)\<rparr>"

fun add_refs :: "('a \<Rightarrow> nat) \<Rightarrow> 'a list \<Rightarrow> 'a list \<Rightarrow> 'a list" where
  "add_refs key stored [] = stored"
| "add_refs key stored (x # xs) =
     add_refs key (if key x \<in> set (map key stored) then stored else stored @ [x]) xs"

definition as_row :: "File \<Rightarrow> File \<Rightarrow> File" where
  "as_row old file = file
     \<lparr>Tags := add_refs tag_ID (Tags old) (Tags file),
      Groups := add_refs group_ID (Groups old) (Groups file),
      Namespace := None, User := None\<rparr>"

text \<open>The column \<^verbatim>\<open>public_filename\<close> is declared \<^verbatim>\<open>unique\<close>: two rows never hold the same
  non-null value, and a write that would make them do so is refused.\<close>

definition unique_violation :: "File list \<Rightarrow> File \<Rightarrow> bool" where
  "unique_violation rows file =
     (PublicFilename file \<noteq> None \<and>
      list_ex (\<lambda>r. ID r \<noteq> ID file \<and> PublicFilename r = PublicFilename file) rows)"

text \<open>\<^verbatim>\<open>db.Create(file)\<close>: a new row under a fresh primary key, which is written into the
  struct.\<close>

definition Create :: "Store \<Rightarrow> File \<Rightarrow> error option \<times> File \<times> Store" where
  "Create db file =
     (case tick db of
        (True, db1) \<Rightarrow> (Some DatabaseFailure, sync_keys file, db1)
      | (False, db1) \<Rightarrow>
          (let file1 = sync_keys (file\<lparr>ID := fresh_ID (map ID (files db1))\<rparr>) in
           if unique_violation (files db1) file1 then (Some UniqueViolation, sync_keys file, db1)
           else (None, file1,
                 db1\<lparr>files := files db1 @ [as_row (file1\<lparr>Tags := [], Groups := []\<rparr>) file1]\<rparr>)))"

text \<open>\<^verbatim>\<open>file.Save(db)\<close> is \<^verbatim>\<open>db.Save(file)\<close>. A struct without primary key is created. Otherwise
  every column of the live row with that key is overwritten; when no live row has the key
  the struct is inserted under it, which the primary key refuses if a soft-deleted row
  holds it.\<close>

definition Save :: "Store \<Rightarrow> File \<Rightarrow> error option \<times> File \<times> Store" where
  "Save db file =
     (if ID file = 0 then Create db file
      else
        (case tick db of
           (True, db1) \<Rightarrow> (Some DatabaseFailure, sync_keys file, db1)
         | (False, db1) \<Rightarrow>
             (let file1 = sync_keys file in
              if unique_violation (files db1) file1 then (Some UniqueViolation, file1, db1)
              else if list_ex (\<lambda>r. ID r = ID file1 \<and> live r) (files db1) then
                (None, file1,
                 db1\<lparr>files := map (\<lambda>r. if ID r = ID file1 \<and> live r then as_row r file1 else r)
                                   (files db1)\<rparr>)
              else if ID file1 \<in> set (map ID (files db1)) then (Some UniqueViolation, file1, db1)
              else (None, file1,
                    db1\<lparr>files := files db1 @
                            [as_row (file1\<lparr>Tags := [], Groups := []\<rparr>) file1]\<rparr>))))"

text \<open>\<^verbatim>\<open>db.Model(&file).Association("Tags").Clear()\<close>: the join rows with the file's id are
  deleted, whether or not the row of the file is soft-deleted. For a struct without
  primary key the association is in error and nothing is sent to the database. The
  error is not looked at in either case.\<close>

definition ClearTags :: "Store \<Rightarrow> File \<Rightarrow> Store" where
  "ClearTags db file =
     (if ID file = 0 then db
      else
        (case tick db of
           (True, db1) \<Rightarrow> db1
         | (False, db1) \<Rightarrow>
             db1\<lparr>files := map (\<lambda>r. if ID r = ID file then r\<lparr>Tags := []\<rparr> else r) (files db1)\<rparr>))"

text \<open>\<^verbatim>\<open>db.Model(&file).Association("Groups").Clear()\<close>, likewise.\<close>

definition ClearGroups :: "Store \<Rightarrow> File \<Rightarrow> Store" where
  "ClearGroups db file =
     (if ID file = 0 then db
      else
        (case tick db of
           (True, db1) \<Rightarrow> db1
         | (False, db1) \<Rightarrow>
             db1\<lparr>files := map (\<lambda>r. if ID r = ID file then r\<lparr>Groups := []\<rparr> else r)
                               (files db1)\<rparr>))"

section \<open>Methods of \<^verbatim>\<open>File\<close>\<close>

text \<open>A method with a pointer receiver returns the struct as it leaves it.\<close>

definition Rename :: "Store \<Rightarrow> File \<Rightarrow> string \<Rightarrow> error option \<times> File \<times> Store" where
  "Rename db file newName = Save db (file\<lparr>Name := newName\<rparr>)"

definition SetVilibility :: "Store \<Rightarrow> File \<Rightarrow> bool \<Rightarrow> error option \<times> File \<times> Store" where
  "SetVilibility db file newVisibility = Save db (file\<lparr>IsPublic := newVisibility\<rparr>)"

definition HasTag :: "File \<Rightarrow> string \<Rightarrow> bool" where
  "HasTag file sTag = list_ex (\<lambda>tag. tag_Name tag = sTag) (Tags file)"

definition HasGroup :: "File \<Rightarrow> string \<Rightarrow> bool" where
  "HasGroup file sGroup = list_ex (\<lambda>g. group_Name g = sGroup) (Groups file)"

text \<open>\<^verbatim>\<open>GetPublicFile\<close> returns \<^verbatim>\<open>(file, found, err)\<close>.\<close>

definition GetPublicFile :: "Store \<Rightarrow> string \<Rightarrow> (File option \<times> bool \<times> error option) \<times> Store" where
  "GetPublicFile db publicFilename =
     (case tick db of
        (True, db1) \<Rightarrow> ((None, False, Some DatabaseFailure), db1)
      | (False, db1) \<Rightarrow>
          (case First (\<lambda>r. PublicFilename r = Some publicFilename) (files db1) of
             None \<Rightarrow> ((None, False, None), db1)
           | Some r \<Rightarrow> ((Some (plain r), True, None), db1)))"

text \<open>\<^verbatim>\<open>Publish\<close> returns \<^verbatim>\<open>(conflict, err)\<close>.\<close>

definition Publish :: "Store \<Rightarrow> File \<Rightarrow> string \<Rightarrow> (bool \<times> error option) \<times> File \<times> Store" where
  "Publish db file publicName =
     (case (if length publicName = 0 then RandString db 25 else (publicName, db)) of
        (publicName1, db1) \<Rightarrow>
          (let file1 = file\<lparr>PublicFilename := Some publicName1, IsPublic := True\<rparr> in
           case GetPublicFile db1 publicName1 of
             ((_, found, _), db2) \<Rightarrow>
               if found then ((True, None), file1, db2)
               else (case Save db2 file1 of (err, file2, db3) \<Rightarrow> ((False, err), file2, db3))))"

subsection \<open>Tags and groups\<close>

text \<open>Modelled from the spec: \<^verbatim>\<open>GetTag\<close> is not among the sources. The attribute catalog's
  \<^verbatim>\<open>resolveOrCreate\<close>: for a name, look up by (name, namespace); if absent, create with the
  given namespace and owner. The default namespace is used when the operation omits one.\<close>

definition GetTag :: "Store \<Rightarrow> string \<Rightarrow> Namespace option \<Rightarrow> User \<Rightarrow> Tag \<times> Store" where
  "GetTag db name namespace user =
     (let ns = (case namespace of None \<Rightarrow> DefaultNamespace db | Some n \<Rightarrow> n) in
      case find (\<lambda>t. tag_Name t = name \<and> tag_NamespaceID t = ns_ID ns) (tags db) of
        Some t \<Rightarrow> (t, db)
      | None \<Rightarrow>
          (let t = \<lparr>tag_ID = fresh_ID (map tag_ID (tags db)), tag_Name = name,
                    tag_NamespaceID = ns_ID ns, tag_UserID = usr_ID user\<rparr>
           in (t, db\<lparr>tags := tags db @ [t]\<rparr>)))"

text \<open>Modelled from the spec: \<^verbatim>\<open>GetGroup\<close> is not among the sources. As for tags: look up
  by (name, namespace); if absent, create with the given namespace and owner.\<close>

definition GetGroup :: "Store \<Rightarrow> string \<Rightarrow> Namespace option \<Rightarrow> User \<Rightarrow> Group \<times> Store" where
  "GetGroup db name namespace user =
     (let ns = (case namespace of None \<Rightarrow> DefaultNamespace db | Some n \<Rightarrow> n) in
      case find (\<lambda>g. group_Name g = name \<and> group_NamespaceID g = ns_ID ns) (groups db) of
        Some g \<Rightarrow> (g, db)
      | None \<Rightarrow>
          (let g = \<lparr>group_ID = fresh_ID (map group_ID (groups db)), group_Name = name,
                    group_NamespaceID = ns_ID ns, group_UserID = usr_ID user\<rparr>
           in (g, db\<lparr>groups := groups db @ [g]\<rparr>)))"

text \<open>Modelled from the spec: \<^verbatim>\<open>TagsFromStringArr\<close> is not among the sources. It builds the
  tags of an upload's draft from their names: no primary key yet, attached to the draft's
  namespace.\<close>

definition TagsFromStringArr :: "string list \<Rightarrow> Namespace \<Rightarrow> User \<Rightarrow> Tag list" where
  "TagsFromStringArr arr namespace user =
     map (\<lambda>n. \<lparr>tag_ID = 0, tag_Name = n, tag_NamespaceID = ns_ID namespace,
                tag_UserID = usr_ID user\<rparr>) arr"

text \<open>Modelled from the spec: \<^verbatim>\<open>GroupsFromStringArr\<close> is not among the sources. It builds
  the groups of an upload's draft from their names, as for tags.\<close>

definition GroupsFromStringArr :: "string list \<Rightarrow> Namespace \<Rightarrow> User \<Rightarrow> Group list" where
  "GroupsFromStringArr arr namespace user =
     map (\<lambda>n. \<lparr>group_ID = 0, group_Name = n, group_NamespaceID = ns_ID namespace,
                group_UserID = usr_ID user\<rparr>) arr"

text \<open>Modelled from the spec: the method \<^verbatim>\<open>Insert\<close> of \<^verbatim>\<open>Tag\<close> is not among the sources.
  It creates the row of the tag with the tag's namespace and the given owner; the new
  primary key is written into the struct.\<close>

definition Tag_Insert :: "Store \<Rightarrow> Tag \<Rightarrow> User \<Rightarrow> Tag \<times> Store" where
  "Tag_Insert db tag user =
     (let t = tag\<lparr>tag_ID := fresh_ID (map tag_ID (tags db)), tag_UserID := usr_ID user\<rparr>
      in (t, db\<lparr>tags := tags db @ [t]\<rparr>))"

text \<open>Modelled from the spec: the method \<^verbatim>\<open>Insert\<close> of \<^verbatim>\<open>Group\<close> is not among the sources.
  It creates the row of the group with the group's namespace and the given owner.\<close>

definition Group_Insert :: "Store \<Rightarrow> Group \<Rightarrow> User \<Rightarrow> Group \<times> Store" where
  "Group_Insert db g user =
     (let g1 = g\<lparr>group_ID := fresh_ID (map group_ID (groups db)), group_UserID := usr_ID user\<rparr>
      in (g1, db\<lparr>groups := groups db @ [g1]\<rparr>))"

text \<open>
  \<^verbatim>\<open>db.Where(&Tag{Name: name}).Find(&tag)\<close>, the lookup of \<^verbatim>\<open>File.Insert\<close>. A struct condition
  uses the non-zero fields only, so the condition is the name alone, and no condition at
  all for the empty name. Every matching row is scanned into the struct in turn, so the
  last one stays; no row is the error \<open>RecordNotFound\<close>.
\<close>

definition Find_Tag :: "Store \<Rightarrow> string \<Rightarrow> (error + Tag) \<times> Store" where
  "Find_Tag db name =
     (case tick db of
        (True, db1) \<Rightarrow> (Inl DatabaseFailure, db1)
      | (False, db1) \<Rightarrow>
          (case filter (\<lambda>t. name = [] \<or> tag_Name t = name) (tags db1) of
             [] \<Rightarrow> (Inl RecordNotFound, db1)
           | t # ts \<Rightarrow> (Inr (last (t # ts)), db1)))"

text \<open>\<^verbatim>\<open>db.Where(&Group{Name: name}).Find(&group)\<close>, likewise.\<close>

definition Find_Group :: "Store \<Rightarrow> string \<Rightarrow> (error + Group) \<times> Store" where
  "Find_Group db name =
     (case tick db of
        (True, db1) \<Rightarrow> (Inl DatabaseFailure, db1)
      | (False, db1) \<Rightarrow>
          (case filter (\<lambda>g. name = [] \<or> group_Name g = name) (groups db1) of
             [] \<Rightarrow> (Inl RecordNotFound, db1)
           | g # gs \<Rightarrow> (Inr (last (g # gs)), db1)))"

subsection \<open>\<^verbatim>\<open>File.Insert\<close>\<close>

text \<open>The two loops of \<^verbatim>\<open>Insert\<close> visit the slice in order and overwrite the element.\<close>

fun Insert_groups :: "Store \<Rightarrow> Group list \<Rightarrow> User \<Rightarrow> Group list \<times> Store" where
  "Insert_groups db [] user = ([], db)"
| "Insert_groups db (g # gs) user =
     (if group_ID g = 0 then
        (case Find_Group db (group_Name g) of
           (Inr found, db1) \<Rightarrow>
             (case Insert_groups db1 gs user of (gs1, db2) \<Rightarrow> (found # gs1, db2))
         | (Inl err, db1) \<Rightarrow>
             (case Group_Insert db1 g user of
                (g1, db2) \<Rightarrow> (case Insert_groups db2 gs user of (gs1, db3) \<Rightarrow> (g1 # gs1, db3))))
      else (case Insert_groups db gs user of (gs1, db1) \<Rightarrow> (g # gs1, db1)))"

fun Insert_tags :: "Store \<Rightarrow> Tag list \<Rightarrow> User \<Rightarrow> Tag list \<times> Store" where
  "Insert_tags db [] user = ([], db)"
| "Insert_tags db (t # ts) user =
     (if tag_ID t = 0 then
        (case Find_Tag db (tag_Name t) of
           (Inr found, db1) \<Rightarrow>
             (case Insert_tags db1 ts user of (ts1, db2) \<Rightarrow> (found # ts1, db2))
         | (Inl err, db1) \<Rightarrow>
             (case Tag_Insert db1 t user of
                (t1, db2) \<Rightarrow> (case Insert_tags db2 ts user of (ts1, db3) \<Rightarrow> (t1 # ts1, db3))))
      else (case Insert_tags db ts user of (ts1, db1) \<Rightarrow> (t # ts1, db1)))"

definition GetNamespace :: "Store \<Rightarrow> File \<Rightarrow> Namespace" where
  "GetNamespace db file =
     (case Namespace file of None \<Rightarrow> DefaultNamespace db | Some ns \<Rightarrow> ns)"

definition Insert :: "Store \<Rightarrow> File \<Rightarrow> User \<Rightarrow> error option \<times> File \<times> Store" where
  "Insert db file user =
     (case Insert_groups db (Groups file) user of
        (gs, db1) \<Rightarrow>
          (case Insert_tags db1 (Tags file) user of
             (ts, db2) \<Rightarrow>
               (let file1 = file\<lparr>Groups := gs, Tags := ts\<rparr>;
                    file2 = file1\<lparr>Namespace := Some (GetNamespace db2 file1), User := Some user\<rparr>
                in Create db2 file2)))"

subsection \<open>Lookup of the addressed file\<close>

text \<open>\<^verbatim>\<open>FindFile\<close> preloads the namespace, the tags and the groups. The namespace of the row
  is the one passed in, since the row is selected by its id.\<close>

definition FindFile :: "Store \<Rightarrow> string \<Rightarrow> nat \<Rightarrow> Namespace \<Rightarrow> User \<Rightarrow> (error + File) \<times> Store" where
  "FindFile db fileName fileID namespace user =
     (case tick db of
        (True, db1) \<Rightarrow> (Inl DatabaseFailure, db1)
      | (False, db1) \<Rightarrow>
          (case First (\<lambda>r. Name r = fileName \<and> NamespaceID r = ns_ID namespace \<and>
                           UserID r = usr_ID user \<and> (fileID \<noteq> 0 \<longrightarrow> ID r = fileID))
                  (files db1) of
             None \<Rightarrow> (Inl RecordNotFound, db1)
           | Some r \<Rightarrow> (Inr (r\<lparr>Namespace := Some namespace\<rparr>), db1)))"

text \<open>\<^verbatim>\<open>GetCount\<close>: the struct condition keeps the non-zero fields of
  \<^verbatim>\<open>File{Name, NamespaceID, Model}\<close>. The method reads \<^verbatim>\<open>file.Namespace.ID\<close>: on a nil namespace
  the run-time panic is the error \<open>NilDereference\<close>.\<close>

definition GetCount :: "Store \<Rightarrow> File \<Rightarrow> nat \<Rightarrow> User \<Rightarrow> (nat \<times> error option) \<times> Store" where
  "GetCount db file fileID user =
     (case Namespace file of
        None \<Rightarrow> ((0, Some NilDereference), db)
      | Some ns \<Rightarrow>
          (case tick db of
             (True, db1) \<Rightarrow> ((0, Some DatabaseFailure), db1)
           | (False, db1) \<Rightarrow>
               ((length (filter (\<lambda>r. live r \<and>
                     (Name file = [] \<or> Name r = Name file) \<and>
                     (ns_ID ns = 0 \<or> NamespaceID r = ns_ID ns) \<and>
                     (ID file = 0 \<or> ID r = ID file) \<and>
                     (fileID = 0 \<or> ID r = fileID)) (files db1)), None), db1)))"

subsection \<open>Attribute methods\<close>

fun AddTags_loop :: "Store \<Rightarrow> File \<Rightarrow> string list \<Rightarrow> User \<Rightarrow> File \<times> Store" where
  "AddTags_loop db file [] user = (file, db)"
| "AddTags_loop db file (sTag # rest) user =
     (if HasTag file sTag then AddTags_loop db file rest user
      else (case GetTag db sTag (Namespace file) user of
              (tag, db1) \<Rightarrow> AddTags_loop db1 (file\<lparr>Tags := Tags file @ [tag]\<rparr>) rest user))"

definition AddTags :: "Store \<Rightarrow> File \<Rightarrow> string list \<Rightarrow> User \<Rightarrow> error option \<times> File \<times> Store" where
  "AddTags db file tagsToAdd user =
     (case AddTags_loop db file tagsToAdd user of (file1, db1) \<Rightarrow> Save db1 file1)"

definition RemoveTags :: "Store \<Rightarrow> File \<Rightarrow> string list \<Rightarrow> error option \<times> File \<times> Store" where
  "RemoveTags db file tagsToRemove =
     (if length (Tags file) = 0 then (None, file, db)
      else
        (let newTags = filter (\<lambda>t. \<not> IsInStringArray (tag_Name t) tagsToRemove) (Tags file) in
         if length newTags < length (Tags file) then
           Save (ClearTags db file) (file\<lparr>Tags := newTags\<rparr>)
         else (None, file, db)))"

fun AddGroups_loop :: "Store \<Rightarrow> File \<Rightarrow> string list \<Rightarrow> User \<Rightarrow> File \<times> Store" where
  "AddGroups_loop db file [] user = (file, db)"
| "AddGroups_loop db file (sGroup # rest) user =
     (if HasGroup file sGroup then AddGroups_loop db file rest user
      else (case GetGroup db sGroup (Namespace file) user of
              (g, db1) \<Rightarrow> AddGroups_loop db1 (file\<lparr>Groups := Groups file @ [g]\<rparr>) rest user))"

definition AddGroups :: "Store \<Rightarrow> File \<Rightarrow> string list \<Rightarrow> User \<Rightarrow> error option \<times> File \<times> Store" where
  "AddGroups db file groupsToAdd user =
     (case AddGroups_loop db file groupsToAdd user of (file1, db1) \<Rightarrow> Save db1 file1)"

definition RemoveGroups :: "Store \<Rightarrow> File \<Rightarrow> string list \<Rightarrow> error option \<times> File \<times> Store" where
  "RemoveGroups db file groupsToRemove =
     (if length (Groups file) = 0 then (None, file, db)
      else
        (let newGroups = filter (\<lambda>g. \<not> IsInStringArray (group_Name g) groupsToRemove)
                                (Groups file) in
         if length newGroups < length (Groups file) then
           Save (ClearGroups db file) (file\<lparr>Groups := newGroups\<rparr>)
         else Save db file))"

subsection \<open>\<^verbatim>\<open>File.UpdateNamespace\<close>\<close>

fun move_tags :: "Store \<Rightarrow> Tag list \<Rightarrow> Namespace \<Rightarrow> User \<Rightarrow> Tag list \<times> Store" where
  "move_tags db [] newNamespace user = ([], db)"
| "move_tags db (tag # rest) newNamespace user =
     (case GetTag db (tag_Name tag) (Some newNamespace) user of
        (newTag, db1) \<Rightarrow>
          (case move_tags db1 rest newNamespace user of (ts, db2) \<Rightarrow> (newTag # ts, db2)))"

fun move_groups :: "Store \<Rightarrow> Group list \<Rightarrow> Namespace \<Rightarrow> User \<Rightarrow> Group list \<times> Store" where
  "move_groups db [] newNamespace user = ([], db)"
| "move_groups db (g # rest) newNamespace user =
     (case GetGroup db (group_Name g) (Some newNamespace) user of
        (newGroup, db1) \<Rightarrow>
          (case move_groups db1 rest newNamespace user of (gs, db2) \<Rightarrow> (newGroup # gs, db2)))"

definition UpdateNamespace ::
  "Store \<Rightarrow> File \<Rightarrow> Namespace \<Rightarrow> User \<Rightarrow> error option \<times> File \<times> Store" where
  "UpdateNamespace db file newNamespace user =
     (let file1 = file\<lparr>Namespace := Some newNamespace, NamespaceID := ns_ID newNamespace\<rparr> in
      case (if length (Tags file1) > 0 then
              (case move_tags db (Tags file1) newNamespace user of
                 (newTags, db1) \<Rightarrow> (file1\<lparr>Tags := newTags\<rparr>, ClearTags db1 file1))
            else (file1, db)) of
        (file2, db2) \<Rightarrow>
          (case (if length (Groups file2) > 0 then
                   (case move_groups db2 (Groups file2) newNamespace user of
                      (newGroups, db3) \<Rightarrow> (file2\<lparr>Groups := newGroups\<rparr>, ClearGroups db3 file2))
                 else (file2, db2)) of
             (file3, db4) \<Rightarrow> Save db4 file3))"

subsection \<open>\<^verbatim>\<open>File.Delete\<close>\<close>

text \<open>\<^verbatim>\<open>os.Remove\<close> of the content; its error is logged only. \<^verbatim>\<open>db.Delete\<close> sets the
  soft-delete column; without a primary key it has no condition and addresses every
  row.\<close>

definition Remove :: "Store \<Rightarrow> string \<Rightarrow> Store" where
  "Remove db localName =
     (case tick db of
        (True, db1) \<Rightarrow> db1
      | (False, db1) \<Rightarrow> db1\<lparr>disk := (disk db1)(localName := None)\<rparr>)"

definition SoftDelete :: "Store \<Rightarrow> File \<Rightarrow> error option \<times> Store" where
  "SoftDelete db file =
     (case tick db of
        (True, db1) \<Rightarrow> (Some DatabaseFailure, db1)
      | (False, db1) \<Rightarrow>
          (None, db1\<lparr>files := map (\<lambda>r. if (ID file = 0 \<or> ID r = ID file) \<and> live r
                                        then r\<lparr>DeletedAt := True\<rparr> else r) (files db1)\<rparr>))"

definition Delete :: "Store \<Rightarrow> File \<Rightarrow> error option \<times> File \<times> Store" where
  "Delete db file =
     (case Save db (file\<lparr>IsPublic := False, PublicFilename := None\<rparr>) of
        (Some err, file1, db1) \<Rightarrow> (Some err, file1, db1)
      | (None, file1, db1) \<Rightarrow>
          (case SoftDelete (Remove db1 (LocalName file1)) file1 of
             (err, db2) \<Rightarrow> (err, file1, db2)))"

section \<open>Handlers\<close>

text \<open>
  What a handler writes to the client. \<open>Reply\<close> is \<^verbatim>\<open>sendResponse\<close>: the status and the
  message of the headers, the file id of the payload when there is one, and the HTTP
  status code (200 unless the call passes one). \<open>NotFoundPage\<close> is \<^verbatim>\<open>http.NotFound\<close>,
  \<open>ErrorPage\<close> is \<^verbatim>\<open>http.Error\<close>, \<open>Stream\<close> is a served content with its content type
  (empty: header not set). \<open>Unparsed\<close> stands for the answer of \<^verbatim>\<open>parseUserInput\<close> to a
  request it rejects, and \<open>Aborted\<close> for a handler stopped by a run-time panic.
\<close>

datatype ResponseStatus = ResponseError | ResponseSuccess

datatype Response =
    Reply ResponseStatus string "nat option" nat
  | NotFoundPage
  | ErrorPage string nat
  | Stream string bytes
  | Unparsed
  | Aborted

definition sendServerError :: Response where
  "sendServerError = Reply ResponseError ''internal server error'' None 500"

text \<open>
  What the handlers use and the sources do not define is a parameter: the namespace
  registry (\<^verbatim>\<open>FindNamespace\<close>, \<^verbatim>\<open>IsOwnedBy\<close>), the digest \<^verbatim>\<open>GetMD5Hash\<close>, the scheme that
  \<^verbatim>\<open>url.Parse\<close> finds in a string (\<open>None\<close>: not a URL), the answer of \<^verbatim>\<open>http.Get\<close> to a URL,
  and the configured buffer size of downloads.
\<close>

text \<open>What \<^verbatim>\<open>http.Get\<close> returns: an error, or a response with its \<^verbatim>\<open>StatusCode\<close>, its
  \<^verbatim>\<open>ContentLength\<close> and the bytes of its \<^verbatim>\<open>Body\<close>.\<close>

datatype HTTPResult = GetFailed | GetResponse int int bytes

record Env =
  FindNamespace :: "Store \<Rightarrow> string \<Rightarrow> Namespace option"
  IsOwnedBy :: "Namespace \<Rightarrow> User \<Rightarrow> bool"
  GetMD5Hash :: "bytes \<Rightarrow> string"
  url_Scheme :: "string \<Rightarrow> string option"
  http_Get :: "string \<Rightarrow> HTTPResult"
  DownloadFileBuffer :: nat

record FileAttributes =
  attr_Tags :: "string list"
  attr_Groups :: "string list"
  attr_Namespace :: string

subsection \<open>\<^verbatim>\<open>UpdateFileHandler\<close>\<close>

text \<open>The request of the handler, with the fields the handler reads. (The declaration
  with the field \<^verbatim>\<open>Updates\<close> is not among the sources: the \<^verbatim>\<open>FileUpdateRequest\<close> of
  \<^verbatim>\<open>Requests.go\<close> has none.) \<open>u_IsPublic\<close> is a string: the handler parses it.\<close>

record FileUpdateItem =
  u_NewName :: string
  u_IsPublic :: string
  u_NewNamespace :: string
  u_AddTags :: "string list"
  u_RemoveTags :: "string list"
  u_AddGroups :: "string list"
  u_RemoveGroups :: "string list"

record FileUpdateRequest =
  req_FileID :: nat
  req_Name :: string
  req_Attributes :: FileAttributes
  Updates :: FileUpdateItem

text \<open>\<^verbatim>\<open>strconv.ParseBool\<close>.\<close>

definition ParseBool :: "string \<Rightarrow> bool option" where
  "ParseBool str =
     (if str \<in> set [''1'', ''t'', ''T'', ''TRUE'', ''true'', ''True''] then Some True
      else if str \<in> set [''0'', ''f'', ''F'', ''FALSE'', ''false'', ''False''] then Some False
      else None)"

text \<open>
  The blocks of the \<^verbatim>\<open>"update"\<close> case, one definition each, in the order of the source.
  A block works on the file, the store and \<^verbatim>\<open>didUpdate\<close>; \<open>Inl\<close> is a block that has
  answered the client and returned.
\<close>

type_synonym upd_state = "File \<times> Store \<times> bool"

definition and_then :: "('r + 's) \<Rightarrow> ('s \<Rightarrow> 'r + 's) \<Rightarrow> 'r + 's" where
  "and_then m f = (case m of Inl r \<Rightarrow> Inl r | Inr st \<Rightarrow> f st)"

definition upd_Rename :: "FileUpdateItem \<Rightarrow> upd_state \<Rightarrow> (Response \<times> Store) + upd_state" where
  "upd_Rename update st =
     (case st of (file, db, didUpdate) \<Rightarrow>
        if length (u_NewName update) > 0 then
          (case Rename db file (u_NewName update) of
             (Some err, file1, db1) \<Rightarrow> Inl (sendServerError, db1)
           | (None, file1, db1) \<Rightarrow> Inr (file1, db1, True))
        else Inr (file, db, didUpdate))"

definition upd_Visibility :: "FileUpdateItem \<Rightarrow> upd_state \<Rightarrow> (Response \<times> Store) + upd_state" where
  "upd_Visibility update st =
     (case st of (file, db, didUpdate) \<Rightarrow>
        if length (u_IsPublic update) > 0 then
          (case ParseBool (u_IsPublic update) of
             None \<Rightarrow> Inl (Reply ResponseError ''isPublic must be a bool'' None 422, db)
           | Some newVisibility \<Rightarrow>
               (case SetVilibility db file newVisibility of
                  (Some err, file1, db1) \<Rightarrow> Inl (sendServerError, db1)
                | (None, file1, db1) \<Rightarrow> Inr (file1, db1, True)))
        else Inr (file, db, didUpdate))"

text \<open>The namespace block of the source is empty: \<^verbatim>\<open>if len(update.NewNamespace) > 0 { //TODO }\<close>.\<close>

definition upd_Namespace :: "FileUpdateItem \<Rightarrow> upd_state \<Rightarrow> (Response \<times> Store) + upd_state" where
  "upd_Namespace update st =
     (case st of (file, db, didUpdate) \<Rightarrow>
        if length (u_NewNamespace update) > 0 then Inr (file, db, didUpdate)
        else Inr (file, db, didUpdate))"

definition upd_AddTags ::
  "FileUpdateItem \<Rightarrow> User \<Rightarrow> upd_state \<Rightarrow> (Response \<times> Store) + upd_state" where
  "upd_AddTags update user st =
     (case st of (file, db, didUpdate) \<Rightarrow>
        if length (u_AddTags update) > 0 then
          (let currLenTags = length (Tags file) in
           case AddTags db file (u_AddTags update) user of
             (Some err, file1, db1) \<Rightarrow> Inl (sendServerError, db1)
           | (None, file1, db1) \<Rightarrow> Inr (file1, db1, length (Tags file1) > currLenTags))
        else Inr (file, db, didUpdate))"

definition upd_RemoveTags :: "FileUpdateItem \<Rightarrow> upd_state \<Rightarrow> (Response \<times> Store) + upd_state" where
  "upd_RemoveTags update st =
     (case st of (file, db, didUpdate) \<Rightarrow>
        if length (u_RemoveTags update) > 0 then
          (let currLenTags = length (Tags file) in
           case RemoveTags db file (u_RemoveTags update) of
             (Some err, file1, db1) \<Rightarrow> Inl (sendServerError, db1)
           | (None, file1, db1) \<Rightarrow> Inr (file1, db1, length (Tags file1) < currLenTags))
        else Inr (file, db, didUpdate))"

definition upd_AddGroups ::
  "FileUpdateItem \<Rightarrow> User \<Rightarrow> upd_state \<Rightarrow> (Response \<times> Store) + upd_state" where
  "upd_AddGroups update user st =
     (case st of (file, db, didUpdate) \<Rightarrow>
        if length (u_AddGroups update) > 0 then
          (let currLenGroups = length (Groups file) in
           case AddGroups db file (u_AddGroups update) user of
             (Some err, file1, db1) \<Rightarrow> Inl (sendServerError, db1)
           | (None, file1, db1) \<Rightarrow> Inr (file1, db1, length (Groups file1) > currLenGroups))
        else Inr (file, db, didUpdate))"

definition upd_RemoveGroups :: "FileUpdateItem \<Rightarrow> upd_state \<Rightarrow> (Response \<times> Store) + upd_state" where
  "upd_RemoveGroups update st =
     (case st of (file, db, didUpdate) \<Rightarrow>
        if length (u_RemoveGroups update) > 0 then
          (let currLenGroups = length (Groups file) in
           case RemoveGroups db file (u_RemoveGroups update) of
             (Some err, file1, db1) \<Rightarrow> Inl (sendServerError, db1)
           | (None, file1, db1) \<Rightarrow> Inr (file1, db1, length (Groups file1) < currLenGroups))
        else Inr (file, db, didUpdate))"

definition update_case ::
  "FileUpdateItem \<Rightarrow> User \<Rightarrow> upd_state \<Rightarrow> (Response \<times> Store) + upd_state" where
  "update_case update user st =
     and_then (and_then (and_then (and_then (and_then (and_then
       (upd_Rename update st)
       (upd_Visibility update))
       (upd_Namespace update))
       (upd_AddTags update user))
       (upd_RemoveTags update))
       (upd_AddGroups update user))
       (upd_RemoveGroups update)"

text \<open>The end of the handler: the error of the action, then \<^verbatim>\<open>didUpdate\<close>.\<close>

definition update_answer :: "error option \<Rightarrow> bool \<Rightarrow> Response" where
  "update_answer err didUpdate =
     (if err \<noteq> None then sendServerError
      else if didUpdate then Reply ResponseSuccess ''success'' None 200
      else Reply ResponseError ''noting to do'' None 200)"

definition UpdateFileHandler ::
  "Env \<Rightarrow> Store \<Rightarrow> User \<Rightarrow> string option \<Rightarrow> FileUpdateRequest option \<Rightarrow> Response \<times> Store" where
  "UpdateFileHandler env db user action_var parsed =
     (case parsed of
        None \<Rightarrow> (Unparsed, db)
      | Some request \<Rightarrow>
     (case FindNamespace env db (attr_Namespace (req_Attributes request)) of
        None \<Rightarrow> (Reply ResponseError ''Namespace not found'' None 200, db)
      | Some namespace \<Rightarrow>
     if ns_ID namespace = 0 then (Reply ResponseError ''Namespace not found'' None 200, db)
     else if \<not> IsOwnedBy env namespace user \<and> \<not> CanWriteForeignNamespace user then
       (Reply ResponseError ''Write permission denied for foreign namespaces'' None 403, db)
     else
     (case action_var of
        None \<Rightarrow> (Reply ResponseError ''missing action'' None 200, db)
      | Some action \<Rightarrow>
     if \<not> IsInStringArray action [''delete'', ''update''] then
       (Reply ResponseError ''invalid action'' None 200, db)
     else
     (case GetCount db (empty_File\<lparr>Name := req_Name request, Namespace := Some namespace\<rparr>)
             (req_FileID request) user of
        ((c, Some err), db1) \<Rightarrow> (sendServerError, db1)
      | ((c, None), db1) \<Rightarrow>
     if c > 1 \<and> req_FileID request = 0 then
       (Reply ResponseError ''multiple files with same name'' None 200, db1)
     else if c = 0 then (Reply ResponseError ''File not found'' None 200, db1)
     else
     (case FindFile db1 (req_Name request) (req_FileID request) namespace user of
        (Inl err, db2) \<Rightarrow> (sendServerError, db2)
      | (Inr file, db2) \<Rightarrow>
     if action = ''delete'' then
       (case Delete db2 file of (err, file1, db3) \<Rightarrow> (update_answer err True, db3))
     else
       (case update_case (Updates request) user (file, db2, False) of
          Inl answered \<Rightarrow> answered
        | Inr (file1, db3, didUpdate) \<Rightarrow> (update_answer None didUpdate, db3)))))))"

subsection \<open>\<^verbatim>\<open>PrevievFileHandler\<close>\<close>

text \<open>\<^verbatim>\<open>BufferedCopy\<close> moves the content in pieces of the buffer size and stops at the
  first empty read.\<close>

function BufferedCopy :: "nat \<Rightarrow> bytes \<Rightarrow> bytes" where
  "BufferedCopy bufferSize reader =
     (if bufferSize = 0 \<or> reader = [] then []
      else take bufferSize reader @ BufferedCopy bufferSize (drop bufferSize reader))"
  by pat_completeness auto
termination
  by (relation "measure (\<lambda>(bufferSize, reader). length reader)") auto

declare BufferedCopy.simps [simp del]

definition Open :: "Store \<Rightarrow> string \<Rightarrow> (error + bytes) \<times> Store" where
  "Open db localName =
     (case tick db of
        (True, db1) \<Rightarrow> (Inl IOFailure, db1)
      | (False, db1) \<Rightarrow>
          (case disk db1 localName of
             None \<Rightarrow> (Inl IOFailure, db1)
           | Some content \<Rightarrow> (Inr content, db1)))"

definition PrevievFileHandler :: "Env \<Rightarrow> Store \<Rightarrow> string \<Rightarrow> Response \<times> Store" where
  "PrevievFileHandler env db fileID =
     (case GetPublicFile db fileID of
        ((file, False, err), db1) \<Rightarrow> (NotFoundPage, db1)
      | ((file, True, Some e), db1) \<Rightarrow> (ErrorPage ''Server error'' 500, db1)
      | ((None, True, None), db1) \<Rightarrow> (Aborted, db1)
      | ((Some file, True, None), db1) \<Rightarrow>
          if \<not> IsPublic file then (NotFoundPage, db1)
          else
            (case Open db1 (LocalName file) of
               (Inl e, db2) \<Rightarrow> (ErrorPage ''Server error'' 500, db2)
             | (Inr content, db2) \<Rightarrow>
                 (Stream (FileType file) (BufferedCopy (DownloadFileBuffer env) content), db2)))"

subsection \<open>\<^verbatim>\<open>UploadfileHandler\<close>\<close>

text \<open>The request of the handler, with the fields the handler reads; \<open>OtherUploadType\<close>
  stands for every value of \<^verbatim>\<open>UploadType\<close> that is neither of the two constants.\<close>

datatype UploadType = FileUploadType | URLUploadType | OtherUploadType

record UploadRequest =
  UploadType :: UploadType
  Data :: bytes
  Sum :: string
  URL :: string
  upl_Name :: string
  upl_Attributes :: FileAttributes

text \<open>\<^verbatim>\<open>strconv.Itoa\<close>.\<close>

function Itoa_nat :: "nat \<Rightarrow> string" where
  "Itoa_nat n =
     (if n < 10 then [''0123456789'' ! n]
      else Itoa_nat (n div 10) @ [''0123456789'' ! (n mod 10)])"
  by pat_completeness auto
termination
  by (relation "measure id") auto

declare Itoa_nat.simps [simp del]

definition Itoa :: "int \<Rightarrow> string" where
  "Itoa i = (if i < 0 then CHR ''-'' # Itoa_nat (nat (- i)) else Itoa_nat (nat i))"

text \<open>\<^verbatim>\<open>err.Error()\<close>: the text of \<^verbatim>\<open>errors.New("File too large")\<close> is the source's; the texts
  of the errors that come from libraries stand for whatever the library says.\<close>

definition Error_text :: "error \<Rightarrow> string" where
  "Error_text e =
     (case e of
        FileTooLarge \<Rightarrow> ''File too large''
      | RecordNotFound \<Rightarrow> ''record not found''
      | DatabaseFailure \<Rightarrow> ''database failure''
      | UniqueViolation \<Rightarrow> ''unique constraint violated''
      | IOFailure \<Rightarrow> ''input/output error''
      | NetworkFailure \<Rightarrow> ''network error''
      | NilDereference \<Rightarrow> ''nil pointer dereference'')"

definition AllowedSchemes :: "string list" where
  "AllowedSchemes = [''http'', ''https'']"

definition isValidHTTPURL :: "Env \<Rightarrow> string \<Rightarrow> bool" where
  "isValidHTTPURL env inp =
     (case url_Scheme env inp of
        None \<Rightarrow> False
      | Some scheme \<Rightarrow> IsInStringArray scheme AllowedSchemes)"

text \<open>The first \<^verbatim>\<open>switch\<close> of the handler: \<open>Some\<close> is the answer of a request it turns
  down.\<close>

definition validate_upload :: "Env \<Rightarrow> User \<Rightarrow> UploadRequest \<Rightarrow> Response option" where
  "validate_upload env user request =
     (case UploadType request of
        FileUploadType \<Rightarrow>
          if \<not> CanUploadFiles user then
            Some (Reply ResponseError ''not allowed to upload files'' None 403)
          else if GetMD5Hash env (Data request) \<noteq> Sum request then
            Some (Reply ResponseError ''Content wasn't delivered completely'' None 422)
          else None
      | URLUploadType \<Rightarrow>
          if \<not> AllowedToUploadURLs user then
            Some (Reply ResponseError ''not allowed to upload urls'' None 403)
          else if length (URL request) = 0 \<or> \<not> isValidHTTPURL env (URL request) then
            Some (Reply ResponseError ''missing or malformed url'' None 422)
          else None
      | OtherUploadType \<Rightarrow> Some (Reply ResponseError ''invalid upload type'' None 422))"

text \<open>
  The loop that looks for an unused local name. \<^verbatim>\<open>Count\<close> leaves \<^verbatim>\<open>c\<close> at zero when the
  query fails, and the error is not looked at. The result is \<^verbatim>\<open>uniqueNameFound\<close>,
  \<^verbatim>\<open>localName\<close> and the loop counter when the loop is left.
\<close>

definition Count_LocalName :: "Store \<Rightarrow> string \<Rightarrow> nat \<times> Store" where
  "Count_LocalName db localName =
     (case tick db of
        (True, db1) \<Rightarrow> (0, db1)
      | (False, db1) \<Rightarrow>
          (length (filter (\<lambda>r. live r \<and> (localName = [] \<or> LocalName r = localName))
                     (files db1)), db1))"

function unique_name_loop :: "nat \<Rightarrow> string \<Rightarrow> Store \<Rightarrow> bool \<times> string \<times> nat \<times> Store" where
  "unique_name_loop i localName db =
     (if i < 5 then
        (case RandString db 40 of
           (localName1, db1) \<Rightarrow>
             (case Count_LocalName db1 localName1 of
                (c, db2) \<Rightarrow>
                  if c = 0 then (True, localName1, i, db2)
                  else unique_name_loop (Suc i) localName1 db2))
      else (False, localName, i, db))"
  by pat_completeness auto
termination
  by (relation "measure (\<lambda>(i, localName, db). 5 - i)") auto

declare unique_name_loop.simps [simp del]

text \<open>The file operations on the content: \<^verbatim>\<open>os.Create\<close>, \<^verbatim>\<open>f.Write\<close>, \<^verbatim>\<open>io.Copy\<close> into the
  file, \<^verbatim>\<open>f.Close\<close>.\<close>

definition OsCreate :: "Store \<Rightarrow> string \<Rightarrow> error option \<times> Store" where
  "OsCreate db localName =
     (case tick db of
        (True, db1) \<Rightarrow> (Some IOFailure, db1)
      | (False, db1) \<Rightarrow> (None, db1\<lparr>disk := (disk db1)(localName \<mapsto> [])\<rparr>))"

definition Write :: "Store \<Rightarrow> string \<Rightarrow> bytes \<Rightarrow> (nat \<times> error option) \<times> Store" where
  "Write db localName content =
     (case tick db of
        (True, db1) \<Rightarrow> ((0, Some IOFailure), db1)
      | (False, db1) \<Rightarrow>
          ((length content, None),
           db1\<lparr>disk := (disk db1)
              (localName \<mapsto> (case disk db1 localName of None \<Rightarrow> [] | Some old \<Rightarrow> old) @ content)\<rparr>))"

definition Close :: "Store \<Rightarrow> error option \<times> Store" where
  "Close db = (case tick db of (True, db1) \<Rightarrow> (Some IOFailure, db1) | (False, db1) \<Rightarrow> (None, db1))"

text \<open>\<^verbatim>\<open>downloadHTTP\<close> returns \<^verbatim>\<open>(status, err)\<close>; \<^verbatim>\<open>f\<close> is the file created under the local
  name. \<^verbatim>\<open>io.LimitReader(r, n)\<close> reads the first \<open>n\<close> bytes, none when \<open>n\<close> is not positive.\<close>

definition downloadHTTP ::
  "Env \<Rightarrow> Store \<Rightarrow> User \<Rightarrow> string \<Rightarrow> string \<Rightarrow> File \<Rightarrow> (int \<times> error option) \<times> File \<times> Store" where
  "downloadHTTP env db user url localName file =
     (case http_Get env url of
        GetFailed \<Rightarrow> ((0, Some NetworkFailure), file, db)
      | GetResponse StatusCode ContentLength Body \<Rightarrow>
          if StatusCode < 200 \<or> StatusCode > 299 then ((StatusCode, None), file, db)
          else if HasUploadLimit user \<and> ContentLength > MaxURLcontentSize user then
            ((StatusCode, Some FileTooLarge), file, db)
          else
            (let reader = (if HasUploadLimit user then take (nat (MaxURLcontentSize user)) Body
                           else Body) in
             case Write db localName reader of
               ((written, Some err), db1) \<Rightarrow> ((0, Some err), file, db1)
             | ((written, None), db1) \<Rightarrow>
                 (case Close db1 of
                    (Some err, db2) \<Rightarrow> ((0, Some err), file, db2)
                  | (None, db2) \<Rightarrow>
                      ((StatusCode, None), file\<lparr>FileSize := int written\<rparr>, db2))))"

text \<open>The handler from \<^verbatim>\<open>os.Create\<close> on: the content is written, then the row.\<close>

definition store_upload ::
  "Env \<Rightarrow> Store \<Rightarrow> User \<Rightarrow> UploadRequest \<Rightarrow> File \<Rightarrow> string \<Rightarrow> Response \<times> Store" where
  "store_upload env db user request file localName =
     (case OsCreate db localName of
        (Some err, db1) \<Rightarrow> (sendServerError, db1)
      | (None, db1) \<Rightarrow>
     (case (case UploadType request of
              FileUploadType \<Rightarrow>
                (case Write db1 localName (Data request) of
                   ((written, Some err), db2) \<Rightarrow> Inl (sendServerError, db2)
                 | ((written, None), db2) \<Rightarrow> Inr (file\<lparr>FileSize := int written\<rparr>, db2))
            | URLUploadType \<Rightarrow>
                (case downloadHTTP env db1 user (URL request) localName file of
                   ((status, Some err), file1, db2) \<Rightarrow>
                     Inl (Reply ResponseError (Error_text err) None 400, db2)
                 | ((status, None), file1, db2) \<Rightarrow>
                     if status > 299 \<or> status < 200 then
                       Inl (Reply ResponseError (''Non ok response: '' @ Itoa status) None 400, db2)
                     else Inr (file1, db2))
            | OtherUploadType \<Rightarrow> Inr (file, db1)) of
        Inl answered \<Rightarrow> answered
      | Inr (file1, db2) \<Rightarrow>
     (case Close db2 of
        (Some err, db3) \<Rightarrow> (sendServerError, db3)
      | (None, db3) \<Rightarrow>
     (case Insert db3 file1 user of
        (Some err, file2, db4) \<Rightarrow> (sendServerError, db4)
      | (None, file2, db4) \<Rightarrow> (Reply ResponseSuccess [] (Some (ID file2)) 200, db4)))))"

definition UploadfileHandler ::
  "Env \<Rightarrow> Store \<Rightarrow> User \<Rightarrow> UploadRequest option \<Rightarrow> Response \<times> Store" where
  "UploadfileHandler env db user parsed =
     (case parsed of
        None \<Rightarrow> (Unparsed, db)
      | Some request \<Rightarrow>
     (case validate_upload env user request of
        Some answer \<Rightarrow> (answer, db)
      | None \<Rightarrow>
     (case (if length (upl_Name request) = 0 then RandString db 20
            else (upl_Name request, db)) of
        (name, db1) \<Rightarrow>
     (case FindNamespace env db1 (attr_Namespace (upl_Attributes request)) of
        None \<Rightarrow> (Reply ResponseError ''namespace not found'' None 404, db1)
      | Some namespace \<Rightarrow>
     if \<not> IsOwnedBy env namespace user \<and> \<not> CanWriteForeignNamespace user then
       (Reply ResponseError ''Write permission denied for foreign namespaces'' None 403, db1)
     else
     (let tags = TagsFromStringArr (attr_Tags (upl_Attributes request)) namespace user;
          groups = GroupsFromStringArr (attr_Groups (upl_Attributes request)) namespace user
      in
     (case unique_name_loop 0 [] db1 of
        (uniqueNameFound, localName, i, db2) \<Rightarrow>
     if \<not> uniqueNameFound then (sendServerError, db2)
     else
       store_upload env db2 user request
         (empty_File\<lparr>Groups := groups, Tags := tags, Namespace := Some namespace,
                     Name := name, LocalName := localName\<rparr>)
         localName))))))"

section \<open>Notions used to state the properties\<close>

text \<open>A \<open>Reply\<close> with the success status.\<close>

definition succeeded :: "Response \<Rightarrow> bool" where
  "succeeded resp = (case resp of Reply ResponseSuccess m p c \<Rightarrow> True | _ \<Rightarrow> False)"

text \<open>The local name that the \<open>i\<close>-th pass of the allocation loop draws, whether a live row
  uses a local name, whether the \<open>i\<close>-th coming call to the store fails, and the store
  after \<open>k\<close> passes (each pass draws 40 characters and makes one query).\<close>

definition drawn :: "Store \<Rightarrow> nat \<Rightarrow> string" where
  "drawn db i = map (entropy db) [epos db + 40 * i ..< epos db + 40 * i + 40]"

definition in_use :: "Store \<Rightarrow> string \<Rightarrow> bool" where
  "in_use db localName = list_ex (\<lambda>r. live r \<and> LocalName r = localName) (files db)"

definition fails_at :: "Store \<Rightarrow> nat \<Rightarrow> bool" where
  "fails_at db i = (i < length (faults db) \<and> faults db ! i)"

definition after_attempts :: "Store \<Rightarrow> nat \<Rightarrow> Store" where
  "after_attempts db k = db\<lparr>epos := epos db + 40 * k, faults := drop k (faults db)\<rparr>"

text \<open>Whether a live row is published under a slug, and whether the coming lookup of the
  slug is answered and finds such a row.\<close>

definition slug_bound :: "Store \<Rightarrow> string \<Rightarrow> bool" where
  "slug_bound db slug = list_ex (\<lambda>r. live r \<and> PublicFilename r = Some slug) (files db)"

definition lookup_finds :: "Store \<Rightarrow> string \<Rightarrow> bool" where
  "lookup_finds db slug = (\<not> fst (tick db) \<and> slug_bound db slug)"

section \<open>Concrete stores and requests\<close>

text \<open>
  A user who owns the namespaces 1 ("default") and 2 ("other") and may upload files and
  URLs up to 4 bytes; an environment that knows these two namespaces, takes "full" as the
  digest of any non-empty data and answers every download with status 404; the empty
  store \<open>store0\<close>, where every random character is "a"; and \<open>storeA\<close>, holding the file
  "a.txt" of namespace 1 with the tag "x", published under the slug "abc".
\<close>

definition user1 :: User where
  "user1 = \<lparr>usr_ID = 1, CanUploadFiles = True, AllowedToUploadURLs = True,
     CanWriteForeignNamespace = False, HasUploadLimit = True, MaxURLcontentSize = 4\<rparr>"

definition ns1 :: Namespace where
  "ns1 = \<lparr>ns_ID = 1, ns_Name = ''default'', ns_UserID = 1\<rparr>"

definition ns2 :: Namespace where
  "ns2 = \<lparr>ns_ID = 2, ns_Name = ''other'', ns_UserID = 1\<rparr>"

definition env1 :: Env where
  "env1 = \<lparr>FindNamespace = (\<lambda>db n. if n = [] then Some (DefaultNamespace db)
                                else if n = ''other'' then Some ns2 else None),
     IsOwnedBy = (\<lambda>ns u. ns_UserID ns = usr_ID u),
     GetMD5Hash = (\<lambda>d. if d = [] then ''empty'' else ''full''),
     url_Scheme = (\<lambda>u. if take 7 u = ''http://'' then Some ''http'' else None),
     http_Get = (\<lambda>u. GetResponse 404 0 []),
     DownloadFileBuffer = 2\<rparr>"

definition store0 :: Store where
  "store0 = \<lparr>files = [], tags = [], groups = [], disk = Map.empty, faults = [],
     entropy = (\<lambda>_. CHR ''a''), epos = 0, DefaultNamespace = ns1\<rparr>"

definition tag_x :: Tag where
  "tag_x = \<lparr>tag_ID = 1, tag_Name = ''x'', tag_NamespaceID = 1, tag_UserID = 1\<rparr>"

definition fileA :: File where
  "fileA = empty_File\<lparr>ID := 1, Name := ''a.txt'', LocalName := ''blobA'', UserID := 1,
     NamespaceID := 1, Tags := [tag_x], IsPublic := True, PublicFilename := Some ''abc''\<rparr>"

definition storeA :: Store where
  "storeA = store0\<lparr>files := [fileA], tags := [tag_x], disk := [''blobA'' \<mapsto> [1, 2, 3]]\<rparr>"

definition name_a40 :: string where
  "name_a40 = replicate 40 (CHR ''a'')"

definition upload1 :: UploadRequest where
  "upload1 = \<lparr>UploadType = FileUploadType, Data = [1, 2, 3], Sum = ''full'', URL = [],
     upl_Name = ''n.txt'',
     upl_Attributes = \<lparr>attr_Tags = [], attr_Groups = [], attr_Namespace = []\<rparr>\<rparr>"

text \<open>A store whose fifth call fails: in an upload of \<open>upload1\<close> that is the creation of
  the row, after the name query, \<^verbatim>\<open>os.Create\<close>, \<^verbatim>\<open>f.Write\<close> and \<^verbatim>\<open>f.Close\<close>.\<close>

definition store_insert_fails :: Store where
  "store_insert_fails = store0\<lparr>faults := [False, False, False, False, True]\<rparr>"

text \<open>The same for \<open>store_upload\<close>, which starts at \<^verbatim>\<open>os.Create\<close>, with the struct the
  handler has built by then; and an upload by URL, which \<open>env1\<close> answers with status
  404.\<close>

definition store_create_fails :: Store where
  "store_create_fails = store0\<lparr>faults := [False, False, False, True]\<rparr>"

definition draft1 :: File where
  "draft1 = empty_File\<lparr>Namespace := Some ns1, Name := ''n.txt'', LocalName := name_a40\<rparr>"

definition upload_url :: UploadRequest where
  "upload_url = upload1\<lparr>UploadType := URLUploadType, URL := ''http://host/gone''\<rparr>"

definition upload_bad_sum :: UploadRequest where
  "upload_bad_sum = upload1\<lparr>Sum := ''wrong''\<rparr>"

text \<open>A pass of the allocation loop reports a collision when its query is answered and a
  live row uses the drawn name.\<close>

definition collides :: "Store \<Rightarrow> nat \<Rightarrow> bool" where
  "collides db i = (\<not> fails_at db i \<and> in_use db (drawn db i))"

text \<open>The requests that reach the allocation loop of \<^verbatim>\<open>UploadfileHandler\<close>: accepted by the
  first \<^verbatim>\<open>switch\<close>, named \<open>name\<close> (a random name when the request has none, which moves
  the store to \<open>db\<close>), with a namespace that exists and may be written. \<open>draft_of\<close> is the
  struct the handler builds once it has the local name.\<close>

definition reaches_allocation ::
  "Env \<Rightarrow> Store \<Rightarrow> User \<Rightarrow> UploadRequest \<Rightarrow> string \<Rightarrow> Store \<Rightarrow> Namespace \<Rightarrow> bool" where
  "reaches_allocation env db0 user request name db namespace =
     (validate_upload env user request = None \<and>
      (if length (upl_Name request) = 0 then RandString db0 20 else (upl_Name request, db0))
        = (name, db) \<and>
      FindNamespace env db (attr_Namespace (upl_Attributes request)) = Some namespace \<and>
      (IsOwnedBy env namespace user \<or> CanWriteForeignNamespace user))"

definition draft_of :: "UploadRequest \<Rightarrow> string \<Rightarrow> Namespace \<Rightarrow> User \<Rightarrow> string \<Rightarrow> File" where
  "draft_of request name namespace user localName =
     empty_File\<lparr>Groups := GroupsFromStringArr (attr_Groups (upl_Attributes request)) namespace user,
                Tags := TagsFromStringArr (attr_Tags (upl_Attributes request)) namespace user,
                Namespace := Some namespace, Name := name, LocalName := localName\<rparr>"

text \<open>A store in which the only name that can be drawn is the local name of a live row.\<close>

definition store_full :: Store where
  "store_full = store0\<lparr>files := [fileA\<lparr>LocalName := name_a40\<rparr>]\<rparr>"

text \<open>Whether a live row is published under a slug and public.\<close>

definition public_under :: "Store \<Rightarrow> string \<Rightarrow> bool" where
  "public_under db slug =
     list_ex (\<lambda>r. live r \<and> PublicFilename r = Some slug \<and> IsPublic r) (files db)"

text \<open>A second file, not published, beside \<open>fileA\<close>.\<close>

definition fileB :: File where
  "fileB = empty_File\<lparr>ID := 2, Name := ''b.txt'', LocalName := ''blobB'', UserID := 1,
     NamespaceID := 1\<rparr>"

definition storeAB :: Store where
  "storeAB = storeA\<lparr>files := [fileA, fileB]\<rparr>"

text \<open>Update requests for the file "a.txt" of the default namespace, and an upload into
  the namespace "other" with the tag "x".\<close>

definition upd0 :: FileUpdateItem where
  "upd0 = \<lparr>u_NewName = [], u_IsPublic = [], u_NewNamespace = [], u_AddTags = [],
     u_RemoveTags = [], u_AddGroups = [], u_RemoveGroups = []\<rparr>"

definition req0 :: FileUpdateRequest where
  "req0 = \<lparr>req_FileID = 0, req_Name = ''a.txt'',
     req_Attributes = \<lparr>attr_Tags = [], attr_Groups = [], attr_Namespace = []\<rparr>,
     Updates = upd0\<rparr>"

definition req_remove_x :: FileUpdateRequest where
  "req_remove_x = req0\<lparr>Updates := upd0\<lparr>u_RemoveTags := [''x'']\<rparr>\<rparr>"

definition req_rename_remove :: FileUpdateRequest where
  "req_rename_remove = req0\<lparr>Updates := upd0\<lparr>u_NewName := ''b.txt'', u_RemoveTags := [''zzz'']\<rparr>\<rparr>"

definition req_rename :: FileUpdateRequest where
  "req_rename = req0\<lparr>Updates := upd0\<lparr>u_NewName := ''b.txt''\<rparr>\<rparr>"

definition req_move :: FileUpdateRequest where
  "req_move = req0\<lparr>Updates := upd0\<lparr>u_NewNamespace := ''other''\<rparr>\<rparr>"

definition upload_other_ns :: UploadRequest where
  "upload_other_ns = upload1\<lparr>upl_Attributes :=
     \<lparr>attr_Tags = [''x''], attr_Groups = [], attr_Namespace = ''other''\<rparr>\<rparr>"

definition draft_other_ns :: File where
  "draft_other_ns = empty_File\<lparr>Name := ''n.txt'', LocalName := name_a40,
     Namespace := Some ns2, Tags := TagsFromStringArr [''x''] ns2 user1\<rparr>"

section \<open>Facts about the store primitives\<close>

lemma tick_fields [simp]:
  "files (snd (tick db)) = files db"
  "tags (snd (tick db)) = tags db"
  "groups (snd (tick db)) = groups db"
  "disk (snd (tick db)) = disk db"
  "entropy (snd (tick db)) = entropy db"
  "epos (snd (tick db)) = epos db"
  "DefaultNamespace (snd (tick db)) = DefaultNamespace db"
  by (simp_all add: tick_def split: list.splits)

lemma tick_no_faults [simp]: "faults db = [] \<Longrightarrow> tick db = (False, db)"
  by (simp add: tick_def)

lemma tick_eq:
  assumes "tick db = (b, db1)"
  shows "files db1 = files db" "tags db1 = tags db" "groups db1 = groups db"
    "disk db1 = disk db" "entropy db1 = entropy db" "epos db1 = epos db"
    "DefaultNamespace db1 = DefaultNamespace db"
  using assms tick_fields[of db] by simp_all

subsection \<open>What the steps of an upload leave alone\<close>

lemma Find_Group_frame:
  "Find_Group db n = (res, db1) \<Longrightarrow> files db1 = files db \<and> disk db1 = disk db"
  by (auto simp: Find_Group_def split: prod.splits bool.splits list.splits dest: tick_eq)

lemma Find_Tag_frame:
  "Find_Tag db n = (res, db1) \<Longrightarrow> files db1 = files db \<and> disk db1 = disk db"
  by (auto simp: Find_Tag_def split: prod.splits bool.splits list.splits dest: tick_eq)

lemma Insert_groups_frame:
  "Insert_groups db gs user = (gs1, db1) \<Longrightarrow> files db1 = files db \<and> disk db1 = disk db"
proof (induction gs arbitrary: db gs1 db1)
  case Nil
  then show ?case by simp
next
  case (Cons g gs)
  then show ?case
    by (auto simp: Group_Insert_def Let_def split: if_splits prod.splits sum.splits
             dest!: Find_Group_frame)
qed

lemma Insert_tags_frame:
  "Insert_tags db ts user = (ts1, db1) \<Longrightarrow> files db1 = files db \<and> disk db1 = disk db"
proof (induction ts arbitrary: db ts1 db1)
  case Nil
  then show ?case by simp
next
  case (Cons t ts)
  then show ?case
    by (auto simp: Tag_Insert_def Let_def split: if_splits prod.splits sum.splits
             dest!: Find_Tag_frame)
qed

lemma Create_frame:
  "Create db file = (err, file1, db1) \<Longrightarrow>
     disk db1 = disk db \<and> (err \<noteq> None \<longrightarrow> files db1 = files db)"
  by (auto simp: Create_def Let_def split: prod.splits bool.splits if_splits dest: tick_eq)

lemma Insert_frame:
  "Insert db file user = (err, file1, db1) \<Longrightarrow>
     disk db1 = disk db \<and> (err \<noteq> None \<longrightarrow> files db1 = files db)"
  by (auto simp: Insert_def Let_def split: prod.splits
           dest!: Insert_groups_frame Insert_tags_frame Create_frame)

lemma Close_frame:
  "Close db = (err, db1) \<Longrightarrow> files db1 = files db \<and> disk db1 = disk db"
  by (auto simp: Close_def split: prod.splits bool.splits dest: tick_eq)

lemma Write_frame:
  "Write db n c = (res, db1) \<Longrightarrow>
     files db1 = files db \<and> (\<forall>m. disk db m \<noteq> None \<longrightarrow> disk db1 m \<noteq> None)"
  by (auto simp: Write_def split: prod.splits bool.splits dest: tick_eq)

lemma OsCreate_frame:
  "OsCreate db n = (err, db1) \<Longrightarrow>
     files db1 = files db \<and> (\<forall>m. disk db m \<noteq> None \<longrightarrow> disk db1 m \<noteq> None) \<and>
     (err = None \<longrightarrow> disk db1 n \<noteq> None) \<and> (err = None) = (\<not> fst (tick db))"
  by (auto simp: OsCreate_def split: prod.splits bool.splits dest: tick_eq)

lemma downloadHTTP_frame:
  "downloadHTTP env db user url n file = (res, file1, db1) \<Longrightarrow>
     files db1 = files db \<and> (\<forall>m. disk db m \<noteq> None \<longrightarrow> disk db1 m \<noteq> None)"
  by (auto simp: downloadHTTP_def Let_def
           split: HTTPResult.splits if_splits prod.splits option.splits
           dest!: Write_frame Close_frame)

lemma store_upload_frame:
  assumes "store_upload env db user request file localName = (resp, db')"
  shows "(\<forall>m. disk db m \<noteq> None \<longrightarrow> disk db' m \<noteq> None) \<and>
         (\<not> fst (tick db) \<longrightarrow> disk db' localName \<noteq> None) \<and>
         (\<not> succeeded resp \<longrightarrow> files db' = files db)"
  using assms
  unfolding store_upload_def
  by (auto simp: succeeded_def sendServerError_def
           split: prod.splits option.splits sum.splits UploadType.splits if_splits
           dest!: OsCreate_frame Write_frame Close_frame Insert_frame downloadHTTP_frame)

lemma store_upload_non_ok:
  assumes "\<not> fst (tick db)" "UploadType request = URLUploadType"
    "http_Get env (URL request) = GetResponse st cl body" "st < 200 \<or> 299 < st"
  shows "store_upload env db user request file localName =
     (Reply ResponseError (''Non ok response: '' @ Itoa st) None 400,
      (snd (tick db))\<lparr>disk := (disk db)(localName \<mapsto> [])\<rparr>)"
  using assms
  by (cases "tick db") (auto simp: store_upload_def OsCreate_def downloadHTTP_def dest: tick_eq)

lemma store_upload_too_large:
  assumes "\<not> fst (tick db)" "UploadType request = URLUploadType"
    "http_Get env (URL request) = GetResponse st cl body" "200 \<le> st" "st \<le> 299"
    "HasUploadLimit user" "MaxURLcontentSize user < cl"
  shows "store_upload env db user request file localName =
     (Reply ResponseError ''File too large'' None 400,
      (snd (tick db))\<lparr>disk := (disk db)(localName \<mapsto> [])\<rparr>)"
  using assms
  by (cases "tick db")
     (auto simp: store_upload_def OsCreate_def downloadHTTP_def Error_text_def dest: tick_eq)

lemma second_call:
  assumes "tick db = (False, db1)"
  shows "fst (tick (db1\<lparr>disk := d\<rparr>)) = fails_at db 1"
proof (cases "faults db")
  case Nil
  with assms show ?thesis by (auto simp: tick_def fails_at_def)
next
  case (Cons b bs)
  with assms have "db1 = db\<lparr>faults := bs\<rparr>" by (auto simp: tick_def)
  with Cons show ?thesis by (cases bs) (auto simp: tick_def fails_at_def)
qed

lemma store_upload_raw:
  assumes st: "store_upload env db user request file localName = (resp, db')"
    and ok: "\<not> fst (tick db)"
    and raw: "UploadType request = FileUploadType"
  shows "(\<not> fails_at db 1 \<longrightarrow>
            disk db' localName = Some (Data request) \<and>
            (\<not> succeeded resp \<longrightarrow> resp = sendServerError)) \<and>
         (fails_at db 1 \<longrightarrow> resp = sendServerError \<and> disk db' localName = Some [])"
proof -
  obtain db1 where t: "tick db = (False, db1)" using ok by (cases "tick db") auto
  let ?c = "db1\<lparr>disk := (disk db1)(localName \<mapsto> [])\<rparr>"
  have cr: "OsCreate db localName = (None, ?c)" using t by (simp add: OsCreate_def)
  note f2 = second_call[OF t, of "(disk db1)(localName \<mapsto> [])"]
  show ?thesis
  proof (cases "fails_at db 1")
    case True
    then obtain db2 where t2: "tick ?c = (True, db2)" using f2 by (cases "tick ?c") auto
    then have w: "Write ?c localName (Data request) = ((0, Some IOFailure), db2)"
      by (simp add: Write_def)
    have "disk db2 = disk ?c" using tick_eq(4)[OF t2] .
    then show ?thesis using st cr w raw True by (simp add: store_upload_def)
  next
    case False
    then obtain db2 where t2: "tick ?c = (False, db2)" using f2 by (cases "tick ?c") auto
    let ?w = "db2\<lparr>disk := (disk db2)(localName \<mapsto> Data request)\<rparr>"
    have d2: "disk db2 = disk ?c" using tick_eq(4)[OF t2] .
    have w: "Write ?c localName (Data request) = ((length (Data request), None), ?w)"
      using t2 d2 by (simp add: Write_def)
    obtain e db3 where cl: "Close ?w = (e, db3)" by (cases "Close ?w") auto
    have d3: "disk db3 = disk ?w" using Close_frame[OF cl] by simp
    obtain e' f' db4 where ins: "Insert db3 (file\<lparr>FileSize := int (length (Data request))\<rparr>) user
         = (e', f', db4)" by (metis prod_cases3)
    have d4: "disk db4 = disk db3" using Insert_frame[OF ins] by simp
    have "disk db' localName = Some (Data request) \<and>
          (\<not> succeeded resp \<longrightarrow> resp = sendServerError)"
      using st cr w raw cl ins d3 d4
      by (cases e; cases e') (auto simp: store_upload_def succeeded_def)
    with False show ?thesis by simp
  qed
qed


lemma store_upload_fetched:
  assumes st: "store_upload env db user request file localName = (resp, db')"
    and ok: "\<not> fst (tick db)"
    and url: "UploadType request = URLUploadType"
    and get: "http_Get env (URL request) = GetResponse st cl body"
    and fine: "200 \<le> st" "st \<le> 299" "\<not> (HasUploadLimit user \<and> MaxURLcontentSize user < cl)"
    and wr: "\<not> fails_at db 1"
  shows "disk db' localName =
           Some (if HasUploadLimit user then take (nat (MaxURLcontentSize user)) body else body)"
proof -
  let ?reader = "if HasUploadLimit user then take (nat (MaxURLcontentSize user)) body else body"
  obtain db1 where t: "tick db = (False, db1)" using ok by (cases "tick db") auto
  let ?c = "db1\<lparr>disk := (disk db1)(localName \<mapsto> [])\<rparr>"
  have cr: "OsCreate db localName = (None, ?c)" using t by (simp add: OsCreate_def)
  note f2 = second_call[OF t, of "(disk db1)(localName \<mapsto> [])"]
  obtain db2 where t2: "tick ?c = (False, db2)" using f2 wr by (cases "tick ?c") auto
  let ?w = "db2\<lparr>disk := (disk db2)(localName \<mapsto> ?reader)\<rparr>"
  have d2: "disk db2 = disk ?c" using tick_eq(4)[OF t2] .
  have w: "Write ?c localName ?reader = ((length ?reader, None), ?w)"
    using t2 d2 by (simp add: Write_def)
  obtain e0 db3 where c0: "Close ?w = (e0, db3)" by (cases "Close ?w") auto
  have d3: "disk db3 = disk ?w" using Close_frame[OF c0] by simp
  have dl: "downloadHTTP env ?c user (URL request) localName file =
      (case e0 of Some err \<Rightarrow> ((0, Some err), file, db3)
       | None \<Rightarrow> ((st, None), file\<lparr>FileSize := int (length ?reader)\<rparr>, db3))"
    using get fine w c0
    by (cases e0) (auto simp: downloadHTTP_def Let_def)
  show ?thesis
  proof (cases e0)
    case (Some err)
    then show ?thesis using st cr dl url d3 by (simp add: store_upload_def)
  next
    case None
    obtain e db4 where cl: "Close db3 = (e, db4)" by (cases "Close db3") auto
    have d4: "disk db4 = disk db3" using Close_frame[OF cl] by simp
    obtain e' f' db5 where ins: "Insert db4 (file\<lparr>FileSize := int (length ?reader)\<rparr>) user
         = (e', f', db5)" by (metis prod_cases3)
    have d5: "disk db5 = disk db4" using Insert_frame[OF ins] by simp
    show ?thesis
      using st cr dl url None fine cl ins d3 d4 d5
      by (cases e; cases e') (auto simp: store_upload_def)
  qed
qed

section \<open>Uploads that fail after the content file was created\<close>

text \<open>
  C3, as amended. \<open>store_upload\<close> is the handler from \<^verbatim>\<open>os.Create\<close> to its end. Once
  \<^verbatim>\<open>os.Create\<close> has succeeded, the content file exists under the allocated local name when
  the handler returns, whatever it answers, and no file that was in the storage directory
  is removed. An upload that does not answer with success adds no \<open>File\<close> row. For a URL
  upload, a non-2xx upstream status is answered with the error "Non ok response: <status>"
  and a content length above the ceiling of the caller's role with the error
  "File too large"; both leave the empty content file behind. Once the content has been
  written (the call after \<^verbatim>\<open>os.Create\<close> does not fail), the file holds the written bytes
  when the handler returns: the data of a raw upload, the fetched body of a URL upload,
  cut at the ceiling of the caller's role when there is one. A raw upload that fails
  after that, as when the row cannot be inserted, is answered with the server error and
  leaves exactly these bytes behind; a raw upload whose write fails leaves the empty
  file. So the failing upload returns its error and creates no row, but the content
  file is not removed.
\<close>

theorem upload_failure_keeps_content:
  assumes "store_upload env db user request file localName = (resp, db')"
    and "\<not> fst (tick db)"
  shows "disk db' localName \<noteq> None \<and>
         (\<forall>m. disk db m \<noteq> None \<longrightarrow> disk db' m \<noteq> None) \<and>
         (\<not> succeeded resp \<longrightarrow> files db' = files db) \<and>
         (UploadType request = URLUploadType \<and>
          http_Get env (URL request) = GetResponse st cl body \<and> (st < 200 \<or> 299 < st) \<longrightarrow>
            resp = Reply ResponseError (''Non ok response: '' @ Itoa st) None 400 \<and>
            disk db' localName = Some [] \<and> files db' = files db) \<and>
         (UploadType request = URLUploadType \<and>
          http_Get env (URL request) = GetResponse st cl body \<and> 200 \<le> st \<and> st \<le> 299 \<and>
          HasUploadLimit user \<and> MaxURLcontentSize user < cl \<longrightarrow>
            resp = Reply ResponseError ''File too large'' None 400 \<and>
            disk db' localName = Some [] \<and> files db' = files db) \<and>
         (UploadType request = FileUploadType \<and> \<not> fails_at db 1 \<longrightarrow>
            disk db' localName = Some (Data request) \<and>
            (\<not> succeeded resp \<longrightarrow> resp = sendServerError \<and> files db' = files db)) \<and>
         (UploadType request = FileUploadType \<and> fails_at db 1 \<longrightarrow>
            resp = sendServerError \<and> disk db' localName = Some [] \<and> files db' = files db) \<and>
         (UploadType request = URLUploadType \<and>
          http_Get env (URL request) = GetResponse st cl body \<and> 200 \<le> st \<and> st \<le> 299 \<and>
          \<not> (HasUploadLimit user \<and> MaxURLcontentSize user < cl) \<and> \<not> fails_at db 1 \<longrightarrow>
            disk db' localName =
              Some (if HasUploadLimit user then take (nat (MaxURLcontentSize user)) body
                    else body) \<and>
            (\<not> succeeded resp \<longrightarrow> files db' = files db))"
proof -
  note fr = store_upload_frame[OF assms(1)]
  note raw = store_upload_raw[OF assms]
  have ns: "\<not> succeeded sendServerError" by (simp add: succeeded_def sendServerError_def)
  have f: "disk db' localName = Some (Data request) \<and>
           (\<not> succeeded resp \<longrightarrow> resp = sendServerError \<and> files db' = files db)"
    if "UploadType request = FileUploadType" "\<not> fails_at db 1"
    using raw[OF that(1)] that(2) fr by blast
  have g: "resp = sendServerError \<and> disk db' localName = Some [] \<and> files db' = files db"
    if "UploadType request = FileUploadType" "fails_at db 1"
    using raw[OF that(1)] that(2) fr ns by metis
  have h: "disk db' localName =
              Some (if HasUploadLimit user then take (nat (MaxURLcontentSize user)) body
                    else body) \<and>
           (\<not> succeeded resp \<longrightarrow> files db' = files db)"
    if "UploadType request = URLUploadType"
       "http_Get env (URL request) = GetResponse st cl body" "200 \<le> st" "st \<le> 299"
       "\<not> (HasUploadLimit user \<and> MaxURLcontentSize user < cl)" "\<not> fails_at db 1"
    using store_upload_fetched[OF assms that] fr by blast
  have a: "disk db' localName \<noteq> None" using fr assms(2) by blast
  have b: "\<forall>m. disk db m \<noteq> None \<longrightarrow> disk db' m \<noteq> None" using fr by blast
  have c: "\<not> succeeded resp \<longrightarrow> files db' = files db" using fr by blast
  have d: "resp = Reply ResponseError (''Non ok response: '' @ Itoa st) None 400 \<and>
           disk db' localName = Some [] \<and> files db' = files db"
    if "UploadType request = URLUploadType"
       "http_Get env (URL request) = GetResponse st cl body" "st < 200 \<or> 299 < st"
    using store_upload_non_ok[OF assms(2) that, of user "file" localName] assms(1) by auto
  have e: "resp = Reply ResponseError ''File too large'' None 400 \<and>
           disk db' localName = Some [] \<and> files db' = files db"
    if "UploadType request = URLUploadType"
       "http_Get env (URL request) = GetResponse st cl body" "200 \<le> st" "st \<le> 299"
       "HasUploadLimit user" "MaxURLcontentSize user < cl"
    using store_upload_too_large[OF assms(2) that, of "file" localName] assms(1) by auto
  from a b c d e f g h show ?thesis by blast
qed

text \<open>The theorem at a raw upload whose row cannot be created: the answer is the server
  error, the table is as before, and the content file holds the uploaded bytes.\<close>

theorem upload_failure_keeps_content_witness:
  "\<not> fst (tick store_create_fails) \<and>
   UploadType upload1 = FileUploadType \<and> \<not> fails_at store_create_fails 1 \<and>
   fst (store_upload env1 store_create_fails user1 upload1 draft1 name_a40) = sendServerError \<and>
   \<not> succeeded sendServerError \<and>
   disk (snd (store_upload env1 store_create_fails user1 upload1 draft1 name_a40)) name_a40
     = Some (Data upload1) \<and>
   Data upload1 = [1, 2, 3] \<and>
   files (snd (store_upload env1 store_create_fails user1 upload1 draft1 name_a40)) =
     files store_create_fails"
proof -
  have t: "\<not> fst (tick store_create_fails)" by code_simp
  have u: "UploadType upload1 = FileUploadType" by code_simp
  have w: "\<not> fails_at store_create_fails 1" by code_simp
  have r: "fst (store_upload env1 store_create_fails user1 upload1 draft1 name_a40)
           = sendServerError"
    by code_simp
  have s: "\<not> succeeded sendServerError" by code_simp
  have d: "Data upload1 = [1, 2, 3]" by code_simp
  show ?thesis
    using upload_failure_keeps_content[OF surjective_pairing t,
        of env1 user1 upload1 draft1 name_a40] t u w r s d
    by simp
qed

text \<open>C3 as stated fails. The upload by URL gets status 404 from upstream: the handler
  answers with the error and the empty content file it created stays in the storage
  directory. The row of \<open>upload1\<close> cannot be inserted: the handler answers with the server
  error and the content it has just written stays as well.\<close>

theorem upload_orphan_counterexample:
  "fst (UploadfileHandler env1 store0 user1 (Some upload_url)) =
     Reply ResponseError ''Non ok response: 404'' None 400 \<and>
   disk (snd (UploadfileHandler env1 store0 user1 (Some upload_url))) name_a40 = Some [] \<and>
   files (snd (UploadfileHandler env1 store0 user1 (Some upload_url))) = [] \<and>
   fst (UploadfileHandler env1 store_insert_fails user1 (Some upload1)) = sendServerError \<and>
   disk (snd (UploadfileHandler env1 store_insert_fails user1 (Some upload1))) name_a40
     = Some [1, 2, 3] \<and>
   files (snd (UploadfileHandler env1 store_insert_fails user1 (Some upload1))) = []"
  by code_simp

section \<open>A checksum that does not match\<close>

text \<open>
  C7. A raw upload whose checksum differs from the digest of its data changes nothing:
  the handler returns before any call to the database or the file system, so the store
  afterwards is the store before (no \<open>File\<close> row, no content). The caller who may upload
  files gets the integrity error (422, "Content wasn't delivered completely"); the
  capability check comes first, so the caller who may not gets the permission error.
\<close>

theorem upload_checksum_mismatch:
  assumes "UploadType request = FileUploadType"
    and "GetMD5Hash env (Data request) \<noteq> Sum request"
  shows "snd (UploadfileHandler env db user (Some request)) = db \<and>
         (CanUploadFiles user \<longrightarrow>
            fst (UploadfileHandler env db user (Some request)) =
              Reply ResponseError ''Content wasn't delivered completely'' None 422) \<and>
         (\<not> CanUploadFiles user \<longrightarrow>
            fst (UploadfileHandler env db user (Some request)) =
              Reply ResponseError ''not allowed to upload files'' None 403)"
  using assms by (simp add: UploadfileHandler_def validate_upload_def)

theorem upload_checksum_mismatch_witness:
  "UploadType upload_bad_sum = FileUploadType \<and>
   GetMD5Hash env1 (Data upload_bad_sum) \<noteq> Sum upload_bad_sum \<and>
   CanUploadFiles user1 \<and>
   snd (UploadfileHandler env1 storeA user1 (Some upload_bad_sum)) = storeA \<and>
   fst (UploadfileHandler env1 storeA user1 (Some upload_bad_sum)) =
     Reply ResponseError ''Content wasn't delivered completely'' None 422"
proof -
  have a: "UploadType upload_bad_sum = FileUploadType" by code_simp
  have b: "GetMD5Hash env1 (Data upload_bad_sum) \<noteq> Sum upload_bad_sum" by code_simp
  have c: "CanUploadFiles user1" by code_simp
  show ?thesis using upload_checksum_mismatch[OF a b, of storeA user1] a b c by simp
qed

lemma drawn_length: "length (drawn db i) = 40"
  by (simp add: drawn_def)

lemma after_attempts_0: "after_attempts db 0 = db"
  by (simp add: after_attempts_def)

lemma tick_after_attempts:
  "tick (after_attempts db i\<lparr>epos := e\<rparr>) =
     (fails_at db i, (after_attempts db (Suc i))\<lparr>epos := e\<rparr>)"
proof (cases "drop i (faults db)")
  case Nil
  then show ?thesis
    by (simp add: tick_def after_attempts_def fails_at_def drop_Suc drop_tl)
next
  case (Cons b bs)
  then have "i < length (faults db)" by (cases "i < length (faults db)") auto
  moreover from Cons have "faults db ! i = b"
    by (metis calculation hd_drop_conv_nth list.sel(1))
  moreover from Cons have "drop (Suc i) (faults db) = bs"
    by (metis drop_Suc list.sel(3) tl_drop)
  ultimately show ?thesis using Cons
    by (simp add: tick_def after_attempts_def fails_at_def)
qed

lemma in_use_count:
  "in_use db n = (length (filter (\<lambda>r. live r \<and> LocalName r = n) (files db)) \<noteq> 0)"
  by (auto simp: in_use_def list_ex_iff filter_empty_conv)

lemma pass_body:
  "(case RandString (after_attempts db i) 40 of
      (n, db1) \<Rightarrow> (case Count_LocalName db1 n of (c, db2) \<Rightarrow> F n c db2)) =
   F (drawn db i)
     (if fails_at db i then 0
      else length (filter (\<lambda>r. live r \<and> LocalName r = drawn db i) (files db)))
     (after_attempts db (Suc i))"
proof -
  have ne: "drawn db i \<noteq> []" using drawn_length[of db i] by auto
  have d: "map (entropy (after_attempts db i))
             [epos (after_attempts db i)..<epos (after_attempts db i) + 40] = drawn db i"
    by (simp add: after_attempts_def drawn_def)
  have e: "(after_attempts db (Suc i))\<lparr>epos := epos (after_attempts db i) + 40\<rparr>
           = after_attempts db (Suc i)"
    by (simp add: after_attempts_def)
  have f: "files (after_attempts db (Suc i)) = files db" by (simp add: after_attempts_def)
  show ?thesis
    unfolding RandString_def Count_LocalName_def prod.case d tick_after_attempts e
    using ne by (simp add: f)
qed

lemma loop_pass:
  assumes "i < 5"
  shows "unique_name_loop i ln (after_attempts db i) =
     (if collides db i then unique_name_loop (Suc i) (drawn db i) (after_attempts db (Suc i))
      else (True, drawn db i, i, after_attempts db (Suc i)))"
proof -
  have "unique_name_loop i ln (after_attempts db i) =
     (case RandString (after_attempts db i) 40 of
        (n, db1) \<Rightarrow> (case Count_LocalName db1 n of
           (c, db2) \<Rightarrow> if c = 0 then (True, n, i, db2) else unique_name_loop (Suc i) n db2))"
    using assms by (subst unique_name_loop.simps) simp
  also have "\<dots> =
     (if collides db i then unique_name_loop (Suc i) (drawn db i) (after_attempts db (Suc i))
      else (True, drawn db i, i, after_attempts db (Suc i)))"
    unfolding pass_body by (simp add: collides_def in_use_count)
  finally show ?thesis .
qed

lemma loop_end: "\<not> i < 5 \<Longrightarrow> unique_name_loop i ln db = (False, ln, i, db)"
  by (subst unique_name_loop.simps) simp

lemma loop_exhausted:
  assumes "\<forall>i<5. collides db i"
  shows "unique_name_loop 0 [] db = (False, drawn db 4, 5, after_attempts db 5)"
proof -
  have c: "collides db 0" "collides db 1" "collides db 2" "collides db 3" "collides db 4"
    using assms by simp_all
  have "unique_name_loop 0 [] (after_attempts db 0) = (False, drawn db 4, 5, after_attempts db 5)"
    using c by (simp add: loop_pass loop_end eval_nat_numeral)
  then show ?thesis by (simp add: after_attempts_0)
qed

lemma loop_found_from:
  assumes "k < 5" "\<forall>i<k. collides db i" "\<not> collides db k" "j \<le> k"
  shows "unique_name_loop (k - j) ln (after_attempts db (k - j)) =
           (True, drawn db k, k, after_attempts db (Suc k))"
  using assms(4)
proof (induction j arbitrary: ln)
  case 0
  then show ?case using assms(1,3) by (simp add: loop_pass)
next
  case (Suc j)
  then have lt: "k - Suc j < k" and "j \<le> k" by auto
  have s: "Suc (k - Suc j) = k - j" using Suc.prems by auto
  have "collides db (k - Suc j)" using assms(2) lt by blast
  moreover have "k - Suc j < 5" using assms(1) lt by simp
  ultimately show ?case using Suc.IH[OF \<open>j \<le> k\<close>] by (simp add: loop_pass s)
qed

lemma loop_found:
  assumes "k < 5" "\<forall>i<k. collides db i" "\<not> collides db k"
  shows "unique_name_loop 0 [] db = (True, drawn db k, k, after_attempts db (Suc k))"
  using loop_found_from[OF assms, of k "[]"] by (simp add: after_attempts_0)

lemma Create_success:
  "Create db file = (None, file1, db1) \<Longrightarrow>
     \<exists>r. files db1 = files db @ [r] \<and> LocalName r = LocalName file \<and> ID r = ID file1"
  by (auto simp: Create_def Let_def sync_keys_def as_row_def
           split: prod.splits bool.splits if_splits dest: tick_eq)

lemma Insert_success:
  "Insert db file user = (None, file1, db1) \<Longrightarrow>
     \<exists>r. files db1 = files db @ [r] \<and> LocalName r = LocalName file \<and> ID r = ID file1"
  by (auto simp: Insert_def Let_def split: prod.splits
           dest!: Insert_groups_frame Insert_tags_frame Create_success)

lemma downloadHTTP_LocalName:
  "downloadHTTP env db user url n file = (res, file1, db1) \<Longrightarrow>
     LocalName file1 = LocalName file \<and> files db1 = files db"
  by (auto simp: downloadHTTP_def Let_def
           split: HTTPResult.splits if_splits prod.splits option.splits
           dest!: Write_frame Close_frame)

lemma store_upload_created:
  assumes "store_upload env db user request file localName = (resp, db')" "succeeded resp"
  shows "\<not> fst (tick db)"
  using assms
  by (cases "tick db")
     (auto simp: store_upload_def OsCreate_def succeeded_def sendServerError_def
           split: bool.splits)

lemma store_upload_row:
  assumes "store_upload env db user request file localName = (resp, db')" "succeeded resp"
  shows "\<exists>r. files db' = files db @ [r] \<and> LocalName r = LocalName file \<and>
             resp = Reply ResponseSuccess [] (Some (ID r)) 200"
  using assms
  unfolding store_upload_def
  by (auto simp: succeeded_def sendServerError_def
           split: prod.splits option.splits sum.splits UploadType.splits if_splits
           dest!: OsCreate_frame Write_frame Close_frame Insert_success
                  downloadHTTP_LocalName)

lemma store_upload_success:
  assumes "store_upload env db user request file localName = (resp, db')" "succeeded resp"
  shows "\<exists>r. files db' = files db @ [r] \<and> LocalName r = LocalName file \<and>
             resp = Reply ResponseSuccess [] (Some (ID r)) 200 \<and> disk db' localName \<noteq> None"
  using store_upload_row[OF assms] store_upload_frame[OF assms(1)]
    store_upload_created[OF assms]
  by blast

lemma handler_after_loop:
  assumes "reaches_allocation env db0 user request name db namespace"
  shows "UploadfileHandler env db0 user (Some request) =
     (case unique_name_loop 0 [] db of
        (uniqueNameFound, localName, i, db2) \<Rightarrow>
          if \<not> uniqueNameFound then (sendServerError, db2)
          else store_upload env db2 user request
                 (draft_of request name namespace user localName) localName)"
  using assms
  by (auto simp: reaches_allocation_def UploadfileHandler_def draft_of_def Let_def
           split: prod.splits)

section \<open>Allocation of the local name\<close>

text \<open>
  C8. A pass of the loop draws a name of exactly 40 characters and counts the live rows
  that use it. When each of the five passes reports a collision, the loop ends after the
  fifth pass with \<^verbatim>\<open>uniqueNameFound = false\<close> (counter 5, five draws and five queries
  consumed) and the handler answers with the server error, leaving the table and the
  storage directory as they were. When pass \<open>k\<close> is the first that reports no
  collision, the loop stops there with the name it drew, the handler goes on to store the
  upload under that name, and a successful upload has its row and its content under it.
\<close>

theorem local_name_allocation:
  "length (drawn db i) = 40 \<and>
   ((\<forall>i<5. collides db i) \<longrightarrow>
      unique_name_loop 0 [] db = (False, drawn db 4, 5, after_attempts db 5)) \<and>
   (k < 5 \<and> (\<forall>i<k. collides db i) \<and> \<not> collides db k \<longrightarrow>
      unique_name_loop 0 [] db = (True, drawn db k, k, after_attempts db (Suc k))) \<and>
   (reaches_allocation env db0 user request name db namespace \<longrightarrow>
      ((\<forall>i<5. collides db i) \<longrightarrow>
         UploadfileHandler env db0 user (Some request) = (sendServerError, after_attempts db 5)) \<and>
      (k < 5 \<and> (\<forall>i<k. collides db i) \<and> \<not> collides db k \<longrightarrow>
         UploadfileHandler env db0 user (Some request) =
           store_upload env (after_attempts db (Suc k)) user request
             (draft_of request name namespace user (drawn db k)) (drawn db k) \<and>
         (succeeded (fst (UploadfileHandler env db0 user (Some request))) \<longrightarrow>
            (\<exists>r. files (snd (UploadfileHandler env db0 user (Some request))) = files db @ [r] \<and>
                 LocalName r = drawn db k \<and>
                 disk (snd (UploadfileHandler env db0 user (Some request))) (drawn db k)
                   \<noteq> None))))"
proof -
  have a: "length (drawn db i) = 40" by (rule drawn_length)
  have b: "unique_name_loop 0 [] db = (False, drawn db 4, 5, after_attempts db 5)"
    if "\<forall>i<5. collides db i" using that by (rule loop_exhausted)
  have c: "unique_name_loop 0 [] db = (True, drawn db k, k, after_attempts db (Suc k))"
    if "k < 5" "\<forall>i<k. collides db i" "\<not> collides db k" using that by (rule loop_found)
  have d: "UploadfileHandler env db0 user (Some request) = (sendServerError, after_attempts db 5)"
    if "reaches_allocation env db0 user request name db namespace" "\<forall>i<5. collides db i"
    using handler_after_loop[OF that(1)] b[OF that(2)] by simp
  have e: "UploadfileHandler env db0 user (Some request) =
           store_upload env (after_attempts db (Suc k)) user request
             (draft_of request name namespace user (drawn db k)) (drawn db k)"
    if "reaches_allocation env db0 user request name db namespace"
       "k < 5" "\<forall>i<k. collides db i" "\<not> collides db k"
    using handler_after_loop[OF that(1)] c[OF that(2,3,4)] by simp
  have f: "\<exists>r. files (snd (UploadfileHandler env db0 user (Some request))) = files db @ [r] \<and>
                LocalName r = drawn db k \<and>
                disk (snd (UploadfileHandler env db0 user (Some request))) (drawn db k) \<noteq> None"
    if "reaches_allocation env db0 user request name db namespace"
       "k < 5" "\<forall>i<k. collides db i" "\<not> collides db k"
       "succeeded (fst (UploadfileHandler env db0 user (Some request)))"
  proof -
    let ?res = "store_upload env (after_attempts db (Suc k)) user request
             (draft_of request name namespace user (drawn db k)) (drawn db k)"
    have eq: "UploadfileHandler env db0 user (Some request) = ?res" using e[OF that(1-4)] .
    have "succeeded (fst ?res)" using that(5) eq by simp
    from store_upload_success[OF surjective_pairing this]
    show ?thesis unfolding eq by (auto simp: draft_of_def after_attempts_def)
  qed
  from a b c d e f show ?thesis by blast
qed

lemma drawn_a: "entropy db = (\<lambda>_. CHR ''a'') \<Longrightarrow> drawn db i = name_a40"
  by (simp add: drawn_def name_a40_def map_replicate_const)

text \<open>The theorem on \<open>store_full\<close>, where every pass collides, and on the empty store,
  where the first pass finds its name free.\<close>

theorem local_name_allocation_witness:
  "collides store_full 0 \<and> collides store_full 1 \<and> collides store_full 2 \<and>
   collides store_full 3 \<and> collides store_full 4 \<and>
   reaches_allocation env1 store_full user1 upload1 ''n.txt'' store_full ns1 \<and>
   unique_name_loop 0 [] store_full = (False, name_a40, 5, after_attempts store_full 5) \<and>
   UploadfileHandler env1 store_full user1 (Some upload1)
     = (sendServerError, after_attempts store_full 5) \<and>
   \<not> collides store0 0 \<and>
   reaches_allocation env1 store0 user1 upload1 ''n.txt'' store0 ns1 \<and>
   unique_name_loop 0 [] store0 = (True, name_a40, 0, after_attempts store0 1) \<and>
   succeeded (fst (UploadfileHandler env1 store0 user1 (Some upload1))) \<and>
   map LocalName (files (snd (UploadfileHandler env1 store0 user1 (Some upload1)))) = [name_a40]"
proof -
  have dr: "drawn store_full i = name_a40" for i by (rule drawn_a) (simp add: store_full_def store0_def)
  have dr0: "drawn store0 i = name_a40" for i by (rule drawn_a) (simp add: store0_def)
  have col: "collides store_full i" for i
    unfolding collides_def dr
    by (simp add: fails_at_def in_use_def store_full_def store0_def live_def
          fileA_def empty_File_def)
  have all: "\<forall>i<5. collides store_full i" using col by blast
  have r1: "reaches_allocation env1 store_full user1 upload1 ''n.txt'' store_full ns1"
    by (simp add: reaches_allocation_def validate_upload_def upload1_def env1_def user1_def
          store_full_def store0_def ns1_def)
  have nc: "\<not> collides store0 0"
    unfolding collides_def dr0
    by (simp add: in_use_def store0_def)
  have r0: "reaches_allocation env1 store0 user1 upload1 ''n.txt'' store0 ns1"
    by (simp add: reaches_allocation_def validate_upload_def upload1_def env1_def user1_def
          store0_def ns1_def)
  have s0: "succeeded (fst (UploadfileHandler env1 store0 user1 (Some upload1)))"
    by code_simp
  have l0: "map LocalName (files (snd (UploadfileHandler env1 store0 user1 (Some upload1)))) = [name_a40]"
    by code_simp
  note T1 = local_name_allocation[of store_full 0 0 env1 store_full user1 upload1 "''n.txt''" ns1]
  note T0 = local_name_allocation[of store0 0 0 env1 store0 user1 upload1 "''n.txt''" ns1]
  have e1: "unique_name_loop 0 [] store_full = (False, name_a40, 5, after_attempts store_full 5)"
    using T1 all by (simp add: dr)
  have h1: "UploadfileHandler env1 store_full user1 (Some upload1)
     = (sendServerError, after_attempts store_full 5)"
    using T1 all r1 by blast
  have e0: "unique_name_loop 0 [] store0 = (True, name_a40, 0, after_attempts store0 1)"
    using T0 nc by (simp add: dr0)
  show ?thesis using col r1 e1 h1 nc r0 e0 s0 l0 by blast
qed

subsection \<open>Reading and writing the file table\<close>

lemma least_ID_in: "least_ID r rs \<in> set (r # rs)"
  unfolding least_ID_def
proof (induction rs arbitrary: r)
  case Nil
  then show ?case by simp
next
  case (Cons a rs)
  have "fold (\<lambda>a b. if ID a < ID b then a else b) rs (if ID a < ID r then a else r)
          \<in> set ((if ID a < ID r then a else r) # rs)"
    by (rule Cons.IH)
  then show ?case by (auto split: if_splits)
qed

lemma First_Some:
  assumes "First cond rows = Some r"
  shows "r \<in> set rows \<and> live r \<and> cond r"
proof -
  obtain x xs where f: "filter (\<lambda>r. live r \<and> cond r) rows = x # xs" and r: "r = least_ID x xs"
    using assms by (auto simp: First_def split: list.splits)
  have "r \<in> set (filter (\<lambda>r. live r \<and> cond r) rows)"
    using least_ID_in[of x xs] f r by simp
  then show ?thesis by simp
qed

lemma First_None: "(First cond rows = None) = (\<not> list_ex (\<lambda>r. live r \<and> cond r) rows)"
proof (cases "filter (\<lambda>r. live r \<and> cond r) rows")
  case Nil
  then have "\<not> list_ex (\<lambda>r. live r \<and> cond r) rows"
    by (simp add: list_ex_iff filter_empty_conv)
  with Nil show ?thesis by (simp add: First_def)
next
  case (Cons x xs)
  then have "x \<in> set (filter (\<lambda>r. live r \<and> cond r) rows)" by simp
  then have "list_ex (\<lambda>r. live r \<and> cond r) rows" unfolding list_ex_iff by auto
  with Cons show ?thesis by (simp add: First_def)
qed

lemma plain_fields [simp]:
  "IsPublic (plain r) = IsPublic r" "LocalName (plain r) = LocalName r"
  "FileType (plain r) = FileType r" "ID (plain r) = ID r"
  "PublicFilename (plain r) = PublicFilename r"
  by (simp_all add: plain_def)

lemma GetPublicFile_cases:
  "GetPublicFile db s =
     (if fst (tick db) then ((None, False, Some DatabaseFailure), snd (tick db))
      else case First (\<lambda>r. PublicFilename r = Some s) (files db) of
             None \<Rightarrow> ((None, False, None), snd (tick db))
           | Some r \<Rightarrow> ((Some (plain r), True, None), snd (tick db)))"
  by (cases "tick db") (auto simp: GetPublicFile_def dest: tick_eq split: option.splits)

lemma GetPublicFile_found:
  "fst (snd (fst (GetPublicFile db s))) = (\<not> fst (tick db) \<and> slug_bound db s)"
  using First_None[of "\<lambda>r. PublicFilename r = Some s" "files db"]
  by (auto simp: GetPublicFile_cases slug_bound_def split: option.splits)

lemma preview_stream:
  assumes "PrevievFileHandler env db s = (Stream ct content, db')"
  shows "\<exists>r\<in>set (files db). live r \<and> PublicFilename r = Some s \<and> IsPublic r \<and>
           disk db (LocalName r) \<noteq> None"
proof -
  from assms obtain r where r: "First (\<lambda>r. PublicFilename r = Some s) (files db) = Some r"
    and nf: "\<not> fst (tick db)"
    by (auto simp: PrevievFileHandler_def GetPublicFile_cases
             split: option.splits if_splits prod.splits sum.splits)
  from assms r nf have pub: "IsPublic r"
    by (auto simp: PrevievFileHandler_def GetPublicFile_cases
             split: option.splits if_splits prod.splits sum.splits)
  from assms r nf pub obtain c db2 where "Open (snd (tick db)) (LocalName r) = (Inr c, db2)"
    by (auto simp: PrevievFileHandler_def GetPublicFile_cases
             split: option.splits if_splits prod.splits sum.splits)
  then have "disk db (LocalName r) \<noteq> None"
    by (auto simp: Open_def split: prod.splits bool.splits option.splits dest: tick_eq)
  with First_Some[OF r] pub show ?thesis by blast
qed

lemma preview_not_found:
  assumes "\<not> list_ex (\<lambda>r. live r \<and> PublicFilename r = Some s \<and> IsPublic r) (files db)"
  shows "fst (PrevievFileHandler env db s) = NotFoundPage"
proof (cases "First (\<lambda>r. PublicFilename r = Some s) (files db)")
  case None
  then show ?thesis
    by (auto simp: PrevievFileHandler_def GetPublicFile_cases)
next
  case (Some r)
  from First_Some[OF Some] assms have "\<not> IsPublic r" by (auto simp: list_ex_iff)
  with Some show ?thesis
    by (auto simp: PrevievFileHandler_def GetPublicFile_cases)
qed


lemma sync_keys_fields [simp]:
  "IsPublic (sync_keys f) = IsPublic f" "PublicFilename (sync_keys f) = PublicFilename f"
  "ID (sync_keys f) = ID f" "DeletedAt (sync_keys f) = DeletedAt f" "Tags (sync_keys f) = Tags f"
  "Groups (sync_keys f) = Groups f" "Name (sync_keys f) = Name f"
  "LocalName (sync_keys f) = LocalName f"
  by (simp_all add: sync_keys_def)

lemma as_row_fields [simp]:
  "IsPublic (as_row old f) = IsPublic f" "PublicFilename (as_row old f) = PublicFilename f"
  "ID (as_row old f) = ID f" "DeletedAt (as_row old f) = DeletedAt f"
  "Name (as_row old f) = Name f" "LocalName (as_row old f) = LocalName f"
  "NamespaceID (as_row old f) = NamespaceID f"
  "Tags (as_row old f) = add_refs tag_ID (Tags old) (Tags f)"
  "Groups (as_row old f) = add_refs group_ID (Groups old) (Groups f)"
  by (simp_all add: as_row_def)

lemma live_as_row [simp]: "live (as_row old f) = live f"
  by (simp add: live_def)

lemma live_sync_keys [simp]: "live (sync_keys f) = live f"
  by (simp add: live_def)

text \<open>What a successful save leaves in the table.\<close>

lemma Create_result:
  assumes "Create db f = (None, f', db')"
  shows "ID f' = fresh_ID (map ID (files db)) \<and> IsPublic f' = IsPublic f \<and>
         PublicFilename f' = PublicFilename f \<and> DeletedAt f' = DeletedAt f \<and>
         Tags f' = Tags f \<and> Groups f' = Groups f \<and>
         files db' = files db @ [as_row (f'\<lparr>Tags := [], Groups := []\<rparr>) f'] \<and>
         tags db' = tags db \<and> groups db' = groups db \<and> disk db' = disk db"
  using assms
  by (auto simp: Create_def Let_def split: prod.splits bool.splits if_splits dest: tick_eq)

lemma Save_result:
  assumes "Save db f = (None, f', db')" "ID f \<noteq> 0"
  shows "f' = sync_keys f \<and> \<not> unique_violation (files db) (sync_keys f) \<and>
         tags db' = tags db \<and> groups db' = groups db \<and> disk db' = disk db \<and>
         ((list_ex (\<lambda>r. ID r = ID f \<and> live r) (files db) \<and>
           files db' = map (\<lambda>r. if ID r = ID f \<and> live r then as_row r (sync_keys f) else r)
                         (files db)) \<or>
          (ID f \<notin> set (map ID (files db)) \<and>
           files db' = files db @
             [as_row ((sync_keys f)\<lparr>Tags := [], Groups := []\<rparr>) (sync_keys f)]))"
  using assms
  by (cases "tick db")
     (auto simp: Save_def Let_def split: bool.splits if_splits dest: tick_eq)

lemma Save_memory:
  "Save db f = (err, f', db') \<Longrightarrow>
     IsPublic f' = IsPublic f \<and> PublicFilename f' = PublicFilename f \<and> Tags f' = Tags f \<and>
     Groups f' = Groups f \<and> Name f' = Name f \<and> (ID f \<noteq> 0 \<longrightarrow> ID f' = ID f)"
  by (cases "tick db")
     (auto simp: Save_def Create_def Let_def sync_keys_def
           split: bool.splits if_splits dest: tick_eq)

lemma Save_stored:
  assumes "Save db f = (None, f', db')"
  shows "\<exists>old. as_row old f' \<in> set (files db')"
proof (cases "ID f = 0")
  case True
  with assms have "Create db f = (None, f', db')" by (simp add: Save_def)
  from Create_result[OF this] show ?thesis by auto
next
  case False
  note res = Save_result[OF assms False]
  then have f': "f' = sync_keys f" by simp
  from res consider
    (upd) "list_ex (\<lambda>r. ID r = ID f \<and> live r) (files db)"
      "files db' = map (\<lambda>r. if ID r = ID f \<and> live r then as_row r (sync_keys f) else r)
                       (files db)"
    | (ins) "files db' = files db @
               [as_row ((sync_keys f)\<lparr>Tags := [], Groups := []\<rparr>) (sync_keys f)]"
    by blast
  then show ?thesis
  proof cases
    case upd
    then obtain r where r: "r \<in> set (files db)" "ID r = ID f" "live r"
      by (auto simp: list_ex_iff)
    have "(\<lambda>r. if ID r = ID f \<and> live r then as_row r (sync_keys f) else r) r
            \<in> set (files db')"
      unfolding upd(2) using r(1) by (simp only: set_map image_eqI)
    then have "as_row r f' \<in> set (files db')" using r f' by simp
    then show ?thesis ..
  next
    case ins
    then show ?thesis using f' by auto
  qed
qed

lemma Save_rows:
  assumes "Save db f = (None, f', db')" "ID f \<noteq> 0" "r' \<in> set (files db')"
  shows "(r' \<in> set (files db) \<and> (ID r' \<noteq> ID f \<or> \<not> live r')) \<or>
         (\<exists>old. r' = as_row old (sync_keys f))"
proof -
  note res = Save_result[OF assms(1,2)]
  from res consider
    (upd) "files db' = map (\<lambda>r. if ID r = ID f \<and> live r then as_row r (sync_keys f) else r)
                       (files db)"
    | (ins) "ID f \<notin> set (map ID (files db))"
        "files db' = files db @
               [as_row ((sync_keys f)\<lparr>Tags := [], Groups := []\<rparr>) (sync_keys f)]"
    by blast
  then show ?thesis
  proof cases
    case upd
    with assms(3) obtain r where "r \<in> set (files db)"
      "r' = (if ID r = ID f \<and> live r then as_row r (sync_keys f) else r)"
      by auto
    then show ?thesis by (cases "ID r = ID f \<and> live r") auto
  next
    case ins
    from assms(3) ins(2) have "r' \<in> set (files db) \<or>
        r' = as_row ((sync_keys f)\<lparr>Tags := [], Groups := []\<rparr>) (sync_keys f)"
      by auto
    then show ?thesis
    proof
      assume in_old: "r' \<in> set (files db)"
      then have "ID r' \<in> set (map ID (files db))" by simp
      with ins(1) have "ID r' \<noteq> ID f" by metis
      with in_old show ?thesis by blast
    next
      assume "r' = as_row ((sync_keys f)\<lparr>Tags := [], Groups := []\<rparr>) (sync_keys f)"
      then show ?thesis by blast
    qed
  qed
qed

lemma Save_failed_frame:
  "Save db f = (Some e, f', db') \<Longrightarrow> files db' = files db"
  by (cases "tick db")
     (auto simp: Save_def Create_def Let_def split: bool.splits if_splits dest: tick_eq)

text \<open>Hiding a published file.\<close>

lemma hidden_not_served:
  assumes sv: "SetVilibility db f False = (None, f', db1)"
    and id: "ID f \<noteq> 0"
    and slug: "PublicFilename f = Some s"
    and uniq: "\<forall>r\<in>set (files db). PublicFilename r = Some s \<longrightarrow> ID r = ID f"
  shows "fst (PrevievFileHandler env db1 s) = NotFoundPage \<and>
         PublicFilename f' = Some s \<and>
         (\<exists>r\<in>set (files db1). ID r = ID f \<and> PublicFilename r = Some s \<and> \<not> IsPublic r)"
proof -
  let ?g = "f\<lparr>IsPublic := False\<rparr>"
  have sv': "Save db ?g = (None, f', db1)" using sv by (simp add: SetVilibility_def)
  have idg: "ID ?g \<noteq> 0" using id by simp
  have no_public: "\<not> (live r \<and> PublicFilename r = Some s \<and> IsPublic r)"
    if "r \<in> set (files db1)" for r
    using Save_rows[OF sv' idg that] uniq by auto
  then have "\<not> list_ex (\<lambda>r. live r \<and> PublicFilename r = Some s \<and> IsPublic r) (files db1)"
    by (auto simp: list_ex_iff)
  then have a: "fst (PrevievFileHandler env db1 s) = NotFoundPage" by (rule preview_not_found)
  have b: "PublicFilename f' = Some s" using Save_memory[OF sv'] slug by simp
  obtain old where "as_row old f' \<in> set (files db1)" using Save_stored[OF sv'] by blast
  moreover have "f' = sync_keys ?g" using Save_result[OF sv' idg] by simp
  ultimately have c: "\<exists>r\<in>set (files db1). ID r = ID f \<and> PublicFilename r = Some s \<and> \<not> IsPublic r"
    using slug by (intro bexI[of _ "as_row old f'"]) auto
  from a b c show ?thesis by blast
qed

section \<open>Retrieval by slug\<close>

text \<open>
  C10. \<^verbatim>\<open>PrevievFileHandler\<close> streams a content only if a live row has the requested slug as
  its public filename and has \<open>IsPublic\<close> set. When no live row has the slug, or no live
  row with the slug is public, the answer is the not-found page. In particular a file that
  was published under a slug and then made private keeps the slug in its row and in the
  struct, and a request for the slug gets the not-found page.
\<close>

theorem preview_only_public:
  "(PrevievFileHandler env db s = (Stream ct content, db') \<longrightarrow> public_under db s) \<and>
   (\<not> slug_bound db s \<longrightarrow> fst (PrevievFileHandler env db s) = NotFoundPage) \<and>
   (\<not> public_under db s \<longrightarrow> fst (PrevievFileHandler env db s) = NotFoundPage) \<and>
   (SetVilibility db f False = (None, f', db1) \<and> ID f \<noteq> 0 \<and> PublicFilename f = Some s \<and>
    (\<forall>r\<in>set (files db). PublicFilename r = Some s \<longrightarrow> ID r = ID f) \<longrightarrow>
      fst (PrevievFileHandler env db1 s) = NotFoundPage \<and>
      PublicFilename f' = Some s \<and>
      (\<exists>r\<in>set (files db1). ID r = ID f \<and> PublicFilename r = Some s \<and> \<not> IsPublic r))"
proof -
  have a: "public_under db s" if "PrevievFileHandler env db s = (Stream ct content, db')"
    using preview_stream[OF that] by (auto simp: public_under_def list_ex_iff)
  have c: "fst (PrevievFileHandler env db s) = NotFoundPage" if "\<not> public_under db s"
    using that unfolding public_under_def by (rule preview_not_found)
  have b: "fst (PrevievFileHandler env db s) = NotFoundPage" if "\<not> slug_bound db s"
  proof -
    from that have "\<not> public_under db s"
      by (auto simp: public_under_def slug_bound_def list_ex_iff)
    then show ?thesis by (rule c)
  qed
  have d: "fst (PrevievFileHandler env db1 s) = NotFoundPage \<and>
      PublicFilename f' = Some s \<and>
      (\<exists>r\<in>set (files db1). ID r = ID f \<and> PublicFilename r = Some s \<and> \<not> IsPublic r)"
    if "SetVilibility db f False = (None, f', db1)" "ID f \<noteq> 0" "PublicFilename f = Some s"
      "\<forall>r\<in>set (files db). PublicFilename r = Some s \<longrightarrow> ID r = ID f"
    using that by (rule hidden_not_served)
  from a b c d show ?thesis by blast
qed

text \<open>The theorem on \<open>storeA\<close>: \<open>fileA\<close> is served under its slug, an unknown slug is not
  found, and after \<open>fileA\<close> is made private its slug is not found although it is still
  set.\<close>

theorem preview_only_public_witness:
  "fst (PrevievFileHandler env1 storeA ''abc'') = Stream [] [1, 2, 3] \<and>
   public_under storeA ''abc'' \<and>
   \<not> slug_bound storeA ''zzz'' \<and>
   fst (PrevievFileHandler env1 storeA ''zzz'') = NotFoundPage \<and>
   fst (SetVilibility storeA fileA False) = None \<and>
   fst (PrevievFileHandler env1 (snd (snd (SetVilibility storeA fileA False))) ''abc'')
     = NotFoundPage \<and>
   PublicFilename (fst (snd (SetVilibility storeA fileA False))) = Some ''abc''"
proof -
  have s: "fst (PrevievFileHandler env1 storeA ''abc'') = Stream [] [1, 2, 3]" by code_simp
  then have s': "PrevievFileHandler env1 storeA ''abc'' =
      (Stream [] [1, 2, 3], snd (PrevievFileHandler env1 storeA ''abc''))"
    by (metis surjective_pairing)
  have z: "\<not> slug_bound storeA ''zzz''" by code_simp
  have v: "fst (SetVilibility storeA fileA False) = None" by code_simp
  then have v': "SetVilibility storeA fileA False =
      (None, fst (snd (SetVilibility storeA fileA False)), snd (snd (SetVilibility storeA fileA False)))"
    by (metis surjective_pairing)
  have i: "ID fileA \<noteq> 0" by code_simp
  have p: "PublicFilename fileA = Some ''abc''" by code_simp
  have u: "\<forall>r\<in>set (files storeA). PublicFilename r = Some ''abc'' \<longrightarrow> ID r = ID fileA"
    by (simp add: storeA_def store0_def)
  note T = preview_only_public[of env1 storeA "''abc''" "[]" "[1, 2, 3]"
      "snd (PrevievFileHandler env1 storeA ''abc'')" fileA
      "fst (snd (SetVilibility storeA fileA False))" "snd (snd (SetVilibility storeA fileA False))"]
  note Z = preview_only_public[of env1 storeA "''zzz''" "[]" "[]" storeA fileA fileA storeA]
  from T s' have a: "public_under storeA ''abc''" by blast
  from Z z have b: "fst (PrevievFileHandler env1 storeA ''zzz'') = NotFoundPage" by blast
  from T v' i p u have c:
    "fst (PrevievFileHandler env1 (snd (snd (SetVilibility storeA fileA False))) ''abc'')
       = NotFoundPage \<and>
     PublicFilename (fst (snd (SetVilibility storeA fileA False))) = Some ''abc''"
    by blast
  from s a z b v c show ?thesis by blast
qed

section \<open>Publishing under a slug\<close>

lemma tick_fst_cong: "faults db1 = faults db \<Longrightarrow> fst (tick db1) = fst (tick db)"
  by (simp add: tick_def split: list.splits)

lemma slug_bound_cong: "files db1 = files db \<Longrightarrow> slug_bound db1 s = slug_bound db s"
  by (simp add: slug_bound_def)

lemma Publish_result:
  assumes used: "(if length s = 0 then RandString db 25 else (s, db)) = (slug, db1)"
  shows "Publish db f s =
     (if \<not> fst (tick db) \<and> slug_bound db slug
      then ((True, None), f\<lparr>PublicFilename := Some slug, IsPublic := True\<rparr>, snd (tick db1))
      else (case Save (snd (tick db1)) (f\<lparr>PublicFilename := Some slug, IsPublic := True\<rparr>) of
              (err, f2, db3) \<Rightarrow> ((False, err), f2, db3)))"
proof -
  have fr: "files db1 = files db" "faults db1 = faults db"
    using used by (auto simp: RandString_def split: if_splits)
  have g: "GetPublicFile db1 slug =
      ((fst (fst (GetPublicFile db1 slug)), \<not> fst (tick db) \<and> slug_bound db slug,
        snd (snd (fst (GetPublicFile db1 slug)))), snd (tick db1))"
    using GetPublicFile_found[of db1 slug] tick_fst_cong[OF fr(2)] slug_bound_cong[OF fr(1), of slug]
    by (auto simp: GetPublicFile_cases split: option.splits)
  show ?thesis
    unfolding Publish_def used prod.case Let_def
    by (subst g) (simp split: prod.splits)
qed

text \<open>
  C1, as amended. The slug used is the requested one, or a generated one of 25 characters
  when the request has none. When the lookup is answered and finds a live row published
  under the slug used, \<^verbatim>\<open>Publish\<close> reports a conflict and writes nothing: the table is as
  before, while the struct in memory has the slug and the public flag set. The conflict
  does not depend on whose row holds the slug: the file's own row counts. Otherwise no
  conflict is reported and the file is saved: if the save succeeds the row of the file
  is public under the slug used, and if it fails the table is unchanged.
\<close>

theorem publish_conflict:
  assumes "(if length s = 0 then RandString db 25 else (s, db)) = (slug, db1)"
  shows "(s = [] \<longrightarrow> length slug = 25) \<and> (s \<noteq> [] \<longrightarrow> slug = s) \<and>
         (lookup_finds db slug \<longrightarrow>
            fst (Publish db f s) = (True, None) \<and>
            files (snd (snd (Publish db f s))) = files db \<and>
            fst (snd (Publish db f s)) = f\<lparr>PublicFilename := Some slug, IsPublic := True\<rparr>) \<and>
         (\<not> lookup_finds db slug \<longrightarrow>
            fst (fst (Publish db f s)) = False \<and>
            (snd (fst (Publish db f s)) = None \<longrightarrow>
               (\<exists>r\<in>set (files (snd (snd (Publish db f s)))).
                  ID r = ID (fst (snd (Publish db f s))) \<and> IsPublic r \<and>
                  PublicFilename r = Some slug)) \<and>
            (snd (fst (Publish db f s)) \<noteq> None \<longrightarrow>
               files (snd (snd (Publish db f s))) = files db))"
proof -
  note P = Publish_result[OF assms, of f]
  have fr: "files db1 = files db"
    using assms by (auto simp: RandString_def split: if_splits)
  have a: "s = [] \<longrightarrow> length slug = 25" using assms by (auto simp: RandString_def)
  have a': "s \<noteq> [] \<longrightarrow> slug = s" using assms by auto
  have b: "fst (Publish db f s) = (True, None) \<and>
           files (snd (snd (Publish db f s))) = files db \<and>
           fst (snd (Publish db f s)) = f\<lparr>PublicFilename := Some slug, IsPublic := True\<rparr>"
    if "lookup_finds db slug"
    using that P fr by (simp add: lookup_finds_def)
  have c: "fst (fst (Publish db f s)) = False \<and>
            (snd (fst (Publish db f s)) = None \<longrightarrow>
               (\<exists>r\<in>set (files (snd (snd (Publish db f s)))).
                  ID r = ID (fst (snd (Publish db f s))) \<and> IsPublic r \<and>
                  PublicFilename r = Some slug)) \<and>
            (snd (fst (Publish db f s)) \<noteq> None \<longrightarrow>
               files (snd (snd (Publish db f s))) = files db)"
    if nb: "\<not> lookup_finds db slug"
  proof -
    let ?g = "f\<lparr>PublicFilename := Some slug, IsPublic := True\<rparr>"
    obtain err f2 db3 where sv: "Save (snd (tick db1)) ?g = (err, f2, db3)"
      by (metis prod_cases3)
    have pub: "Publish db f s = ((False, err), f2, db3)"
      using P nb sv by (auto simp: lookup_finds_def)
    have mem: "IsPublic f2" "PublicFilename f2 = Some slug" using Save_memory[OF sv] by simp_all
    have ok: "\<exists>r\<in>set (files db3). ID r = ID f2 \<and> IsPublic r \<and> PublicFilename r = Some slug"
      if "err = None"
    proof -
      from sv that obtain old where "as_row old f2 \<in> set (files db3)"
        using Save_stored by blast
      then show ?thesis using mem by (intro bexI[of _ "as_row old f2"]) auto
    qed
    have bad: "files db3 = files db" if "err \<noteq> None"
    proof -
      from that obtain e where "err = Some e" by auto
      with sv have "files db3 = files (snd (tick db1))" using Save_failed_frame by blast
      then show ?thesis using fr by simp
    qed
    show ?thesis unfolding pub using ok bad by simp
  qed
  from a a' b c show ?thesis by blast
qed

text \<open>The theorem on a store with \<open>fileA\<close> published under "abc" and \<open>fileB\<close> unpublished:
  publishing \<open>fileB\<close> under "abc" conflicts and leaves the table alone, publishing it under
  "xyz" is saved.\<close>

theorem publish_conflict_witness:
  "lookup_finds storeAB ''abc'' \<and>
   fst (Publish storeAB fileB ''abc'') = (True, None) \<and>
   files (snd (snd (Publish storeAB fileB ''abc''))) = files storeAB \<and>
   \<not> lookup_finds storeAB ''xyz'' \<and>
   fst (Publish storeAB fileB ''xyz'') = (False, None) \<and>
   map PublicFilename (files (snd (snd (Publish storeAB fileB ''xyz''))))
     = [Some ''abc'', Some ''xyz''] \<and>
   map IsPublic (files (snd (snd (Publish storeAB fileB ''xyz'')))) = [True, True] \<and>
   length (fst (RandString storeAB 25)) = 25"
proof -
  have u1: "(if length ''abc'' = 0 then RandString storeAB 25 else (''abc'', storeAB))
            = (''abc'', storeAB)" by simp
  have u2: "(if length ''xyz'' = 0 then RandString storeAB 25 else (''xyz'', storeAB))
            = (''xyz'', storeAB)" by simp
  have u3: "(if length ([]::string) = 0 then RandString storeAB 25 else ([], storeAB))
            = (fst (RandString storeAB 25), snd (RandString storeAB 25))" by simp
  have b: "lookup_finds storeAB ''abc''" by code_simp
  have n: "\<not> lookup_finds storeAB ''xyz''" by code_simp
  have r: "fst (Publish storeAB fileB ''xyz'') = (False, None)" by code_simp
  have m: "map PublicFilename (files (snd (snd (Publish storeAB fileB ''xyz''))))
     = [Some ''abc'', Some ''xyz'']" by code_simp
  have p: "map IsPublic (files (snd (snd (Publish storeAB fileB ''xyz'')))) = [True, True]"
    by code_simp
  from publish_conflict[OF u1, of fileB] b
  have c: "fst (Publish storeAB fileB ''abc'') = (True, None) \<and>
           files (snd (snd (Publish storeAB fileB ''abc''))) = files storeAB" by blast
  from publish_conflict[OF u2, of fileB] n r
  have x: "\<exists>row\<in>set (files (snd (snd (Publish storeAB fileB ''xyz'')))).
             ID row = ID (fst (snd (Publish storeAB fileB ''xyz''))) \<and> IsPublic row \<and>
             PublicFilename row = Some ''xyz''"
    by simp
  from publish_conflict[OF u3, of fileB]
  have l: "length (fst (RandString storeAB 25)) = 25" by blast
  from b c n r m p l show ?thesis by blast
qed

text \<open>C1 as stated fails where it limits the conflict to a slug of a different file:
  \<open>fileA\<close> is the only file of \<open>storeA\<close> and holds "abc" itself, and publishing it under
  "abc" again reports a conflict.\<close>

theorem publish_own_slug_counterexample:
  "fst (Publish storeA fileA ''abc'') = (True, None) \<and> files storeA = [fileA] \<and>
   PublicFilename fileA = Some ''abc''"
  by (simp add: Publish_def GetPublicFile_def First_def least_ID_def live_def plain_def
        storeA_def store0_def fileA_def empty_File_def tick_def)

section \<open>Visibility\<close>

lemma Publish_named_conflict:
  assumes "s \<noteq> []" "slug_bound db s" "\<not> fst (tick db)"
  shows "fst (fst (Publish db g s)) = True"
proof -
  have "(if length s = 0 then RandString db 25 else (s, db)) = (s, db)" using assms(1) by simp
  from Publish_result[OF this, of g] assms(2,3) show ?thesis by simp
qed

text \<open>
  C4, as amended. \<^verbatim>\<open>SetVilibility\<close> sets \<open>IsPublic\<close> to the new visibility and leaves
  \<open>PublicFilename\<close> as it is, in the struct and, when the save succeeds, in the row of the
  file; when the save fails the table is unchanged. Switching a published file to private
  therefore does not clear its slug and does not free it: the slug is still bound to the
  live row, and publishing any file under it reports a conflict. The row then has a slug
  and is not public, so the visibility operation does not keep "public iff slug set".
\<close>

theorem visibility_keeps_slug:
  assumes "SetVilibility db f v = (err, f', db')"
  shows "IsPublic f' = v \<and> PublicFilename f' = PublicFilename f \<and>
         (err \<noteq> None \<longrightarrow> files db' = files db) \<and>
         (err = None \<longrightarrow>
            (\<exists>r\<in>set (files db'). ID r = ID f' \<and> IsPublic r = v \<and>
               PublicFilename r = PublicFilename f \<and> live r = live f)) \<and>
         (err = None \<and> live f \<and> PublicFilename f = Some s \<and> s \<noteq> [] \<longrightarrow>
            slug_bound db' s \<and>
            (\<not> fst (tick db') \<longrightarrow> fst (fst (Publish db' g s)) = True))"
proof -
  let ?g = "f\<lparr>IsPublic := v\<rparr>"
  have sv: "Save db ?g = (err, f', db')" using assms by (simp add: SetVilibility_def)
  have mem: "IsPublic f' = v" "PublicFilename f' = PublicFilename f"
    using Save_memory[OF sv] by simp_all
  have bad: "files db' = files db" if "err \<noteq> None"
  proof -
    from that obtain e where "err = Some e" by auto
    with sv show ?thesis using Save_failed_frame by blast
  qed
  have dl: "DeletedAt f' = DeletedAt f"
    using sv
    by (cases "tick db")
       (auto simp: Save_def Create_def Let_def sync_keys_def
             split: bool.splits if_splits dest: tick_eq)
  have row: "\<exists>r\<in>set (files db'). ID r = ID f' \<and> IsPublic r = v \<and>
               PublicFilename r = PublicFilename f \<and> live r = live f"
    if "err = None"
  proof -
    from sv that obtain old where "as_row old f' \<in> set (files db')"
      using Save_stored by blast
    then show ?thesis using mem dl
      by (intro bexI[of _ "as_row old f'"]) (auto simp: live_def)
  qed
  have kept: "slug_bound db' s \<and> (\<not> fst (tick db') \<longrightarrow> fst (fst (Publish db' g s)) = True)"
    if "err = None" "live f" "PublicFilename f = Some s" "s \<noteq> []"
  proof -
    from row[OF that(1)] that(2,3) have b: "slug_bound db' s"
      by (auto simp: slug_bound_def list_ex_iff)
    then show ?thesis using Publish_named_conflict[OF that(4)] by blast
  qed
  from mem bad row kept show ?thesis by blast
qed

text \<open>The theorem on \<open>fileA\<close>, published under "abc", switched to private: the slug stays,
  and \<open>fileB\<close> cannot take it.\<close>

theorem visibility_keeps_slug_witness:
  "fst (SetVilibility storeAB fileA False) = None \<and> live fileA \<and>
   PublicFilename fileA = Some ''abc'' \<and>
   IsPublic (fst (snd (SetVilibility storeAB fileA False))) = False \<and>
   PublicFilename (fst (snd (SetVilibility storeAB fileA False))) = Some ''abc'' \<and>
   slug_bound (snd (snd (SetVilibility storeAB fileA False))) ''abc'' \<and>
   \<not> fst (tick (snd (snd (SetVilibility storeAB fileA False)))) \<and>
   fst (fst (Publish (snd (snd (SetVilibility storeAB fileA False))) fileB ''abc'')) = True"
proof -
  have e: "fst (SetVilibility storeAB fileA False) = None" by code_simp
  then have e': "SetVilibility storeAB fileA False =
     (None, fst (snd (SetVilibility storeAB fileA False)),
      snd (snd (SetVilibility storeAB fileA False)))"
    by (metis surjective_pairing)
  have l: "live fileA" by code_simp
  have p: "PublicFilename fileA = Some ''abc''" by code_simp
  have t: "\<not> fst (tick (snd (snd (SetVilibility storeAB fileA False))))" by code_simp
  have n: "''abc'' \<noteq> ([]::string)" by simp
  from visibility_keeps_slug[OF e', of "''abc''" fileB] l p t n e show ?thesis by simp
qed

text \<open>C4 as stated fails: after \<open>fileA\<close> is switched to private its row still holds the
  slug "abc", with \<open>IsPublic\<close> false.\<close>

theorem visibility_off_keeps_slug_counterexample:
  "PublicFilename fileA = Some ''abc'' \<and>
   fst (SetVilibility storeA fileA False) = None \<and>
   map PublicFilename (files (snd (snd (SetVilibility storeA fileA False)))) = [Some ''abc''] \<and>
   map IsPublic (files (snd (snd (SetVilibility storeA fileA False)))) = [False]"
  by code_simp

section \<open>Removing tags\<close>

lemma add_refs_subset: "set (add_refs key stored xs) \<subseteq> set stored \<union> set xs"
proof (induction xs arbitrary: stored)
  case Nil
  then show ?case by simp
next
  case (Cons a xs)
  have "set (add_refs key (if key a \<in> set (map key stored) then stored else stored @ [a]) xs)
          \<subseteq> set (if key a \<in> set (map key stored) then stored else stored @ [a]) \<union> set xs"
    by (rule Cons.IH)
  also have "\<dots> \<subseteq> set stored \<union> set (a # xs)" by auto
  finally show ?case by simp
qed

lemma HasTag_iff: "HasTag f x = (\<exists>t\<in>set (Tags f). tag_Name t = x)"
  by (simp add: HasTag_def list_ex_iff)

lemma not_removed_filter:
  "filter (\<lambda>t. \<not> IsInStringArray (tag_Name t) [x]) ts = filter (\<lambda>t. tag_Name t \<noteq> x) ts"
  by (simp add: IsInStringArray_def)

lemma RemoveTags_none_match:
  assumes "\<forall>t\<in>set (Tags f). tag_Name t \<notin> set names"
  shows "RemoveTags db f names = (None, f, db)"
proof -
  have "filter (\<lambda>t. \<not> IsInStringArray (tag_Name t) names) (Tags f) = Tags f"
    using assms by (simp add: IsInStringArray_def)
  then show ?thesis by (simp add: RemoveTags_def)
qed

lemma RemoveTags_match:
  assumes "HasTag f x"
  shows "RemoveTags db f [x] =
           Save (ClearTags db f) (f\<lparr>Tags := filter (\<lambda>t. tag_Name t \<noteq> x) (Tags f)\<rparr>)"
proof -
  from assms obtain t where t: "t \<in> set (Tags f)" "tag_Name t = x" by (auto simp: HasTag_iff)
  then have ne: "Tags f \<noteq> []" by auto
  have "length (filter (\<lambda>t. tag_Name t \<noteq> x) (Tags f)) < length (Tags f)"
    using t by (intro length_filter_less[of t]) auto
  then show ?thesis using ne by (simp add: RemoveTags_def not_removed_filter)
qed

lemma RemoveTags_again:
  assumes "\<not> HasTag f x"
  shows "RemoveTags db f [x] = (None, f, db)"
  using assms by (intro RemoveTags_none_match) (auto simp: HasTag_iff)

lemma ClearTags_result:
  "faults db = [] \<Longrightarrow> ID f \<noteq> 0 \<Longrightarrow>
     ClearTags db f = db\<lparr>files := map (\<lambda>r. if ID r = ID f then r\<lparr>Tags := []\<rparr> else r)
                                   (files db)\<rparr>"
  by (simp add: ClearTags_def)

lemma unique_violation_map:
  assumes "\<And>r. ID (h r) = ID r \<and> PublicFilename (h r) = PublicFilename r"
  shows "unique_violation (map h rows) f = unique_violation rows f"
  using assms by (auto simp: unique_violation_def list_ex_iff)

lemma unique_violation_cong:
  "ID g = ID f \<Longrightarrow> PublicFilename g = PublicFilename f \<Longrightarrow>
     unique_violation rows g = unique_violation rows f"
  by (simp add: unique_violation_def)

text \<open>
  C9. For a file that has the tag "x": when \<^verbatim>\<open>RemoveTags\<close> with the list ["x"] succeeds, the
  handler's block sets \<^verbatim>\<open>didUpdate\<close> to true, the struct has lost exactly the tags named
  "x", and the same removal applied to the result changes neither the struct nor the store
  and sets \<^verbatim>\<open>didUpdate\<close> to false. The removal does succeed for a stored file on a store
  that answers its calls, and then no live row of the file has the tag any more. Removing
  names that match no tag of the file returns the struct and the store as they were.
\<close>

theorem remove_tags_twice:
  "(HasTag f x \<and> RemoveTags db f [x] = (None, f1, db1) \<longrightarrow>
      upd_RemoveTags (u\<lparr>u_RemoveTags := [x]\<rparr>) (f, db, d) = Inr (f1, db1, True) \<and>
      upd_RemoveTags (u\<lparr>u_RemoveTags := [x]\<rparr>) (f1, db1, True) = Inr (f1, db1, False) \<and>
      Tags f1 = filter (\<lambda>t. tag_Name t \<noteq> x) (Tags f)) \<and>
   (HasTag f x \<and> faults db = [] \<and> ID f \<noteq> 0 \<and>
    list_ex (\<lambda>r. ID r = ID f \<and> live r) (files db) \<and> \<not> unique_violation (files db) f \<longrightarrow>
      fst (RemoveTags db f [x]) = None \<and>
      (\<forall>r\<in>set (files (snd (snd (RemoveTags db f [x])))).
          ID r = ID f \<and> live r \<longrightarrow> \<not> HasTag r x)) \<and>
   ((\<forall>t\<in>set (Tags f). tag_Name t \<notin> set names) \<longrightarrow>
      RemoveTags db f names = (None, f, db) \<and>
      (names \<noteq> [] \<longrightarrow>
         upd_RemoveTags (u\<lparr>u_RemoveTags := names\<rparr>) (f, db, d) = Inr (f, db, False)))"
proof -
  let ?new = "filter (\<lambda>t. tag_Name t \<noteq> x) (Tags f)"
  let ?g = "f\<lparr>Tags := ?new\<rparr>"
  have a: "upd_RemoveTags (u\<lparr>u_RemoveTags := [x]\<rparr>) (f, db, d) = Inr (f1, db1, True) \<and>
      upd_RemoveTags (u\<lparr>u_RemoveTags := [x]\<rparr>) (f1, db1, True) = Inr (f1, db1, False) \<and>
      Tags f1 = ?new"
    if h: "HasTag f x" and r: "RemoveTags db f [x] = (None, f1, db1)"
  proof -
    have sv: "Save (ClearTags db f) ?g = (None, f1, db1)"
      using RemoveTags_match[OF h, of db] r by simp
    have tg: "Tags f1 = ?new" using Save_memory[OF sv] by simp
    obtain t where t: "t \<in> set (Tags f)" "tag_Name t = x" using h by (auto simp: HasTag_iff)
    have lt: "length (Tags f1) < length (Tags f)"
      unfolding tg using t by (intro length_filter_less[of t]) auto
    have no: "\<not> HasTag f1 x" unfolding HasTag_iff tg by simp
    have first: "upd_RemoveTags (u\<lparr>u_RemoveTags := [x]\<rparr>) (f, db, d) = Inr (f1, db1, True)"
      using r lt by (simp add: upd_RemoveTags_def)
    have second: "upd_RemoveTags (u\<lparr>u_RemoveTags := [x]\<rparr>) (f1, db1, True) = Inr (f1, db1, False)"
      using RemoveTags_again[OF no, of db1] by (simp add: upd_RemoveTags_def)
    from first second tg show ?thesis by blast
  qed
  have b: "fst (RemoveTags db f [x]) = None \<and>
      (\<forall>r\<in>set (files (snd (snd (RemoveTags db f [x])))).
          ID r = ID f \<and> live r \<longrightarrow> \<not> HasTag r x)"
    if h: "HasTag f x" and nf: "faults db = []" and id: "ID f \<noteq> 0"
      and st: "list_ex (\<lambda>r. ID r = ID f \<and> live r) (files db)"
      and uv: "\<not> unique_violation (files db) f"
  proof -
    let ?clr = "\<lambda>r. if ID r = ID f then r\<lparr>Tags := []\<rparr> else r"
    let ?db = "db\<lparr>files := map ?clr (files db)\<rparr>"
    have cl: "ClearTags db f = ?db" using nf id by (rule ClearTags_result)
    have rm: "RemoveTags db f [x] = Save ?db ?g"
      using RemoveTags_match[OF h, of db] cl by simp
    have uv': "\<not> unique_violation (map ?clr (files db)) (sync_keys ?g)"
    proof -
      have "unique_violation (map ?clr (files db)) (sync_keys ?g)
            = unique_violation (files db) (sync_keys ?g)"
        by (rule unique_violation_map) simp
      also have "\<dots> = unique_violation (files db) f"
        by (rule unique_violation_cong) simp_all
      finally show ?thesis using uv by simp
    qed
    have st': "list_ex (\<lambda>r. ID r = ID f \<and> live r) (map ?clr (files db))"
    proof -
      from st obtain r where r: "r \<in> set (files db)" "ID r = ID f" "live r"
        by (auto simp: list_ex_iff)
      from r(1) have "?clr r \<in> set (map ?clr (files db))" by (simp only: set_map image_eqI)
      moreover have "ID (?clr r) = ID f \<and> live (?clr r)" using r by (simp add: live_def)
      ultimately show ?thesis unfolding list_ex_iff by blast
    qed
    have sv: "Save ?db ?g = (None, sync_keys ?g,
        ?db\<lparr>files := map (\<lambda>r. if ID r = ID f \<and> live r then as_row r (sync_keys ?g) else r)
                          (map ?clr (files db))\<rparr>)"
      using nf id uv' st' by (simp add: Save_def Let_def)
    have ok: "fst (RemoveTags db f [x]) = None" using rm sv by simp
    have rows: "\<not> HasTag r x"
      if "r \<in> set (files (snd (snd (RemoveTags db f [x]))))" "ID r = ID f" "live r" for r
    proof -
      from that(1) obtain r0 where r0: "r0 \<in> set (files db)"
        "r = (if ID (?clr r0) = ID f \<and> live (?clr r0) then as_row (?clr r0) (sync_keys ?g)
              else ?clr r0)"
        unfolding rm sv by auto
      have l0: "ID (?clr r0) = ID r0" "live (?clr r0) = live r0" by (auto simp: live_def)
      show ?thesis
      proof (cases "ID r0 = ID f \<and> live r0")
        case True
        then have "r = as_row (r0\<lparr>Tags := []\<rparr>) (sync_keys ?g)"
          using r0(2) by (simp add: live_def)
        then have "set (Tags r) \<subseteq> set ?new"
          using add_refs_subset[of tag_ID "[]" ?new] by simp
        then show ?thesis by (auto simp: HasTag_iff)
      next
        case False
        then have "r = ?clr r0" using r0(2) l0 by auto
        then have "ID r = ID r0" "live r = live r0" using l0 by simp_all
        with False that(2,3) show ?thesis by simp
      qed
    qed
    from ok rows show ?thesis by blast
  qed
  have c: "RemoveTags db f names = (None, f, db) \<and>
      (names \<noteq> [] \<longrightarrow>
         upd_RemoveTags (u\<lparr>u_RemoveTags := names\<rparr>) (f, db, d) = Inr (f, db, False))"
    if "\<forall>t\<in>set (Tags f). tag_Name t \<notin> set names"
    using RemoveTags_none_match[OF that, of db] by (simp add: upd_RemoveTags_def)
  from a b c show ?thesis by blast
qed

text \<open>The theorem on \<open>fileA\<close> with its tag "x", and the two update requests in a row
  through the whole handler.\<close>

theorem remove_tags_twice_witness:
  "HasTag fileA ''x'' \<and> faults storeA = [] \<and> ID fileA \<noteq> 0 \<and>
   list_ex (\<lambda>r. ID r = ID fileA \<and> live r) (files storeA) \<and>
   \<not> unique_violation (files storeA) fileA \<and>
   fst (RemoveTags storeA fileA [''x'']) = None \<and>
   upd_RemoveTags (upd0\<lparr>u_RemoveTags := [''x'']\<rparr>) (fileA, storeA, False) =
     Inr (fst (snd (RemoveTags storeA fileA [''x''])), snd (snd (RemoveTags storeA fileA [''x''])),
          True) \<and>
   upd_RemoveTags (upd0\<lparr>u_RemoveTags := [''x'']\<rparr>)
       (fst (snd (RemoveTags storeA fileA [''x''])), snd (snd (RemoveTags storeA fileA [''x''])),
        True) =
     Inr (fst (snd (RemoveTags storeA fileA [''x''])), snd (snd (RemoveTags storeA fileA [''x''])),
          False) \<and>
   map Tags (files (snd (snd (RemoveTags storeA fileA [''x''])))) = [[]] \<and>
   fst (UpdateFileHandler env1 storeA user1 (Some ''update'') (Some req_remove_x)) =
     Reply ResponseSuccess ''success'' None 200 \<and>
   fst (UpdateFileHandler env1
          (snd (UpdateFileHandler env1 storeA user1 (Some ''update'') (Some req_remove_x)))
          user1 (Some ''update'') (Some req_remove_x)) =
     Reply ResponseError ''noting to do'' None 200"
proof -
  let ?f1 = "fst (snd (RemoveTags storeA fileA [''x'']))"
  let ?db1 = "snd (snd (RemoveTags storeA fileA [''x'']))"
  have h: "HasTag fileA ''x''" by code_simp
  have nf: "faults storeA = []" by code_simp
  have i: "ID fileA \<noteq> 0" by code_simp
  have st: "list_ex (\<lambda>r. ID r = ID fileA \<and> live r) (files storeA)" by code_simp
  have uv: "\<not> unique_violation (files storeA) fileA" by code_simp
  note T = remove_tags_twice[of fileA "''x''" storeA ?f1 ?db1 upd0 False "[]"]
  from T h nf i st uv have ok: "fst (RemoveTags storeA fileA [''x'']) = None" by blast
  then have r: "RemoveTags storeA fileA [''x''] = (None, ?f1, ?db1)"
    by (metis surjective_pairing)
  from T h r have two:
    "upd_RemoveTags (upd0\<lparr>u_RemoveTags := [''x'']\<rparr>) (fileA, storeA, False) = Inr (?f1, ?db1, True) \<and>
     upd_RemoveTags (upd0\<lparr>u_RemoveTags := [''x'']\<rparr>) (?f1, ?db1, True) = Inr (?f1, ?db1, False)"
    by blast
  have m: "map Tags (files ?db1) = [[]]" by code_simp
  have a: "fst (UpdateFileHandler env1 storeA user1 (Some ''update'') (Some req_remove_x)) =
     Reply ResponseSuccess ''success'' None 200" by code_simp
  have b: "fst (UpdateFileHandler env1
          (snd (UpdateFileHandler env1 storeA user1 (Some ''update'') (Some req_remove_x)))
          user1 (Some ''update'') (Some req_remove_x)) =
     Reply ResponseError ''noting to do'' None 200" by code_simp
  from h nf i st uv ok two m a b show ?thesis by blast
qed

section \<open>The update action\<close>

text \<open>
  C2 at a failing input. The request renames "a.txt" to "b.txt" and asks to remove a tag
  the file does not have. The rename is applied and saved, then the tag block overwrites
  \<^verbatim>\<open>didUpdate\<close> with the outcome of the removal, and the handler answers with the error
  "noting to do". The rename alone is answered with success.
\<close>

theorem rename_then_noop_update:
  "map Name (files storeA) = [''a.txt''] \<and>
   fst (UpdateFileHandler env1 storeA user1 (Some ''update'') (Some req_rename_remove)) =
     Reply ResponseError ''noting to do'' None 200 \<and>
   map Name (files (snd (UpdateFileHandler env1 storeA user1 (Some ''update'')
                           (Some req_rename_remove)))) = [''b.txt''] \<and>
   fst (UpdateFileHandler env1 storeA user1 (Some ''update'') (Some req_rename)) =
     Reply ResponseSuccess ''success'' None 200"
  by code_simp

text \<open>
  C6 at a failing input. The request supplies the new namespace "other", which exists.
  The namespace block of the handler is empty, so the rows are as before and the answer
  is "noting to do"; \<^verbatim>\<open>File.UpdateNamespace\<close>, which the handler never calls, would move
  the file.
\<close>

theorem new_namespace_not_applied:
  "FindNamespace env1 storeA ''other'' = Some ns2 \<and>
   map NamespaceID (files storeA) = [1] \<and>
   fst (UpdateFileHandler env1 storeA user1 (Some ''update'') (Some req_move)) =
     Reply ResponseError ''noting to do'' None 200 \<and>
   files (snd (UpdateFileHandler env1 storeA user1 (Some ''update'') (Some req_move)))
     = files storeA \<and>
   map NamespaceID (files (snd (snd (UpdateNamespace storeA fileA ns2 user1)))) = [2]"
  by code_simp

section \<open>Tags of an inserted file\<close>

text \<open>
  C5 at a failing input. The store holds the tag "x" of namespace 1 only. A file is
  inserted into namespace 2 with a draft of tag "x" for namespace 2. The lookup of
  \<^verbatim>\<open>File.Insert\<close> is by name alone, finds the row of namespace 1 and attaches it: the file
  of namespace 2 carries a tag of namespace 1 and no tag "x" is created in namespace 2.
  The lookup by (name, namespace), as \<^verbatim>\<open>GetTag\<close> is described, would create that tag.
\<close>

theorem insert_reuses_tag_of_other_namespace:
  "tags storeA = [tag_x] \<and> tag_NamespaceID tag_x = 1 \<and> ns_ID ns2 = 2 \<and>
   fst (Insert storeA draft_other_ns user1) = None \<and>
   map NamespaceID (files (snd (snd (Insert storeA draft_other_ns user1)))) = [1, 2] \<and>
   map Tags (files (snd (snd (Insert storeA draft_other_ns user1)))) = [[tag_x], [tag_x]] \<and>
   tags (snd (snd (Insert storeA draft_other_ns user1))) = [tag_x] \<and>
   fst (UploadfileHandler env1 storeA user1 (Some upload_other_ns)) =
     Reply ResponseSuccess [] (Some 2) 200 \<and>
   map Tags (files (snd (UploadfileHandler env1 storeA user1 (Some upload_other_ns))))
     = [[tag_x], [tag_x]] \<and>
   fst (GetTag storeA ''x'' (Some ns2) user1) =
     \<lparr>tag_ID = 2, tag_Name = ''x'', tag_NamespaceID = 2, tag_UserID = 1\<rparr>"
  by code_simp

end
